theory Spec2Isabelle
  imports Complex_Main "HOL-Library.Sublist"
begin

section \<open>Python values and library functions used by the backend\<close>

text \<open>
  The backend (\<^verbatim>\<open>main.py\<close>, \<^verbatim>\<open>alerts.py\<close>, \<^verbatim>\<open>db.py\<close>, \<^verbatim>\<open>simulator.py\<close>) works on
  Python dictionaries. A dictionary with a fixed set of keys is a record; a key that may
  be absent or hold \<^verbatim>\<open>None\<close> is an \<open>option\<close> field, and where the code tells an absent
  key from a \<^verbatim>\<open>None\<close> value (\<^verbatim>\<open>dict.get(key, default)\<close>) the field is an \<open>entry\<close>.
  Python floats are modelled as reals: the thresholds are compared exactly as written.
\<close>

datatype 'a entry = Missing | Null | Val 'a

datatype py_error =
  OperationalError | ProgrammingError | IntegrityError | OverflowError
  | JSONDecodeError | IndexError | ValueError

text \<open>\<^verbatim>\<open>x or y\<close> on optional strings: \<^verbatim>\<open>None\<close> and the empty string are falsy.\<close>

definition truthy :: "string option \<Rightarrow> bool" where
  "truthy x = (case x of None \<Rightarrow> False | Some s \<Rightarrow> s \<noteq> [])"

definition py_or :: "string option \<Rightarrow> string option \<Rightarrow> string option" where
  "py_or x y = (if truthy x then x else y)"

text \<open>\<^verbatim>\<open>str(n)\<close> for an integer, and \<^verbatim>\<open>str(x)\<close> for an optional string.\<close>

fun show_nat :: "nat \<Rightarrow> string" where
  "show_nat n =
     (if n < 10 then [''0123456789'' ! n]
      else show_nat (n div 10) @ [''0123456789'' ! (n mod 10)])"

declare show_nat.simps [simp del]

definition show_int :: "int \<Rightarrow> string" where
  "show_int i = (if i < 0 then CHR ''-'' # show_nat (nat (- i)) else show_nat (nat i))"

definition py_str :: "string option \<Rightarrow> string" where
  "py_str x = (case x of None \<Rightarrow> ''None'' | Some s \<Rightarrow> s)"

text \<open>
  Rounding to \<open>n\<close> decimals as \<^verbatim>\<open>round(x, n)\<close> and the format \<^verbatim>\<open>f"{x:.3f}"\<close> do it:
  to the nearest, a tie to the even neighbour.
\<close>

definition round_half_even :: "real \<Rightarrow> int" where
  "round_half_even y =
     (let f = \<lfloor>y\<rfloor>; d = y - of_int f
      in if d < 1 / 2 then f else if 1 / 2 < d then f + 1 else if even f then f else f + 1)"

definition py_round :: "real \<Rightarrow> nat \<Rightarrow> real" where
  "py_round x n = of_int (round_half_even (x * 10 ^ n)) / 10 ^ n"

definition pad3 :: "string \<Rightarrow> string" where
  "pad3 s = replicate (3 - length s) (CHR ''0'') @ s"

definition fmt3 :: "real \<Rightarrow> string" where
  "fmt3 x =
     (let n = nat (round_half_even (\<bar>x\<bar> * 1000))
      in (if x < 0 then ''-'' else [])
         @ show_nat (n div 1000) @ ''.'' @ pad3 (show_nat (n mod 1000)))"

text \<open>
  What the code takes from the standard library and the clock is a parameter of the model:
  \<^item> \<open>days_from_now s\<close>: lines 206-226 of \<^verbatim>\<open>main.py\<close>, the whole days between the
    date-time parsed from \<open>s\<close> (\<^verbatim>\<open>datetime.fromisoformat\<close>, then pandas) and
    \<^verbatim>\<open>datetime.now()\<close>; \<open>None\<close> when nothing parses;
  \<^item> \<open>iso_days s\<close>: \<^verbatim>\<open>(datetime.fromisoformat(s).date() - date.today()).days\<close>, \<open>None\<close>
    when that raises;
  \<^item> \<open>iso_after n\<close>: \<^verbatim>\<open>(datetime.now() + timedelta(days=n)).isoformat()\<close>;
  \<^item> \<open>days_from_today x\<close>: \<^verbatim>\<open>(pd.to_datetime(x) - self.today).days\<close> of
    \<^verbatim>\<open>simulator.py\<close>, \<open>None\<close> when that raises;
  \<^item> \<open>json_dumps\<close> and \<open>json_loads\<close>: \<^verbatim>\<open>json.dumps\<close> on a result dictionary and
    \<^verbatim>\<open>json.loads\<close>, \<open>None\<close> when it raises \<^verbatim>\<open>JSONDecodeError\<close>. A decoded value is
    a \<open>json\<close>, with \<open>JNull\<close> for \<^verbatim>\<open>None\<close> and \<open>JStr\<close> for a Python string.
\<close>

datatype json =
  JNull | JBool bool | JNum real | JStr string | JArr "json list" | JObj "(string \<times> json) list"

record test_result =
  r_expiry :: "string option"
  r_expiry_date :: "string option"
  r_exp_date :: "string option"
  r_manufacturer :: "string entry"
  r_manufacturer_name :: "string option"
  r_manufacturer_phone :: "string option"
  r_fake_score :: "real option"
  r_predicted_fake :: "int option"

record env =
  days_from_now :: "string \<Rightarrow> int option"
  iso_days :: "string \<Rightarrow> int option"
  iso_after :: "int \<Rightarrow> string"
  days_from_today :: "string option \<Rightarrow> int option"
  json_dumps :: "test_result \<Rightarrow> string"
  json_loads :: "string \<Rightarrow> json option"

section \<open>Alerts, the alert store and the WebSocket manager\<close>

datatype level = CRITICAL | WARNING

fun level_str :: "level \<Rightarrow> string" where
  "level_str CRITICAL = ''CRITICAL''"
| "level_str WARNING = ''WARNING''"

text \<open>
  The alert dictionary the evaluators build: the id is the text of a UUID, the time stamp
  a float, and \<^verbatim>\<open>data\<close> the text \<^verbatim>\<open>json.dumps(result)\<close>. The dictionary
  \<^verbatim>\<open>load_alerts\<close> makes of a row has the same keys, with the decoded value as
  \<^verbatim>\<open>data\<close>.
\<close>

record alert =
  a_id :: string
  a_timestamp :: real
  a_level :: string
  a_manufacturer :: "string option"
  a_manufacturer_phone :: "string option"
  a_message :: string
  a_data :: string

record loaded_alert =
  l_id :: string
  l_timestamp :: real
  l_level :: string
  l_manufacturer :: "string option"
  l_manufacturer_phone :: "string option"
  l_message :: string
  l_data :: json

text \<open>A row of the table \<^verbatim>\<open>alerts\<close> (\<^verbatim>\<open>init_db\<close>); the database is \<open>None\<close> when the
  table cannot be used, and every statement on it raises \<^verbatim>\<open>sqlite3.OperationalError\<close>.\<close>

record db_row =
  c_id :: string
  c_timestamp :: real
  c_level :: string
  c_manufacturer :: "string option"
  c_manufacturer_phone :: "string option"
  c_message :: string
  c_data :: "string option"

type_synonym alerts_db = "db_row list option"

text \<open>
  What sqlite3 checks before an \<^verbatim>\<open>INSERT INTO t (c1, ..., cn) VALUES (?, ..., ?)\<close> runs:
  as many value expressions as columns (else the statement does not compile), and as many
  bound arguments as question marks.
\<close>

definition sqlite_check_insert :: "nat \<Rightarrow> nat \<Rightarrow> nat \<Rightarrow> py_error option" where
  "sqlite_check_insert n_columns n_marks n_args =
     (if n_marks \<noteq> n_columns then Some OperationalError
      else if n_args \<noteq> n_marks then Some ProgrammingError
      else None)"

text \<open>\<^verbatim>\<open>main.save_alert_to_db\<close>: \<^verbatim>\<open>INSERT OR REPLACE\<close> of seven columns with seven marks
  and seven arguments; the primary key \<^verbatim>\<open>id\<close> replaces a row that has it.\<close>

definition save_alert_to_db :: "alerts_db \<Rightarrow> alert \<Rightarrow> py_error + alerts_db" where
  "save_alert_to_db db a =
     (case db of
        None \<Rightarrow> Inl OperationalError
      | Some rows \<Rightarrow>
          (case sqlite_check_insert 7 7 7 of
             Some e \<Rightarrow> Inl e
           | None \<Rightarrow>
               Inr (Some (filter (\<lambda>r. c_id r \<noteq> a_id a) rows @
                 [\<lparr>c_id = a_id a, c_timestamp = a_timestamp a, c_level = a_level a,
                   c_manufacturer = a_manufacturer a,
                   c_manufacturer_phone = a_manufacturer_phone a,
                   c_message = a_message a, c_data = Some (a_data a)\<rparr>]))))"

text \<open>\<^verbatim>\<open>db.save_alert\<close>: a plain \<^verbatim>\<open>INSERT\<close> that names six columns, writes five marks
  and binds six arguments.\<close>

definition save_alert :: "alerts_db \<Rightarrow> alert \<Rightarrow> py_error + alerts_db" where
  "save_alert db a =
     (case db of
        None \<Rightarrow> Inl OperationalError
      | Some rows \<Rightarrow>
          (case sqlite_check_insert 6 5 6 of
             Some e \<Rightarrow> Inl e
           | None \<Rightarrow>
               if a_id a \<in> set (map c_id rows) then Inl IntegrityError
               else Inr (Some (rows @
                 [\<lparr>c_id = a_id a, c_timestamp = a_timestamp a, c_level = a_level a,
                   c_manufacturer = a_manufacturer a,
                   c_manufacturer_phone = None,
                   c_message = a_message a, c_data = Some (a_data a)\<rparr>]))))"

text \<open>
  \<^verbatim>\<open>main.load_alerts\<close>: the statement \<^verbatim>\<open>ORDER BY timestamp DESC LIMIT ?\<close>, then a
  dictionary for each row fetched.
  \<^item> The limit is bound as a 64-bit integer: sqlite3 raises \<^verbatim>\<open>OverflowError\<close> outside
    that range; a negative limit is no limit in SQLite.
  \<^item> The order among rows of equal time stamp is SQLite's choice; the model keeps them in
    the order of insertion.
  \<^item> \<^verbatim>\<open>data\<close> is \<^verbatim>\<open>json.loads(r[6]) if r[6] else None\<close>: a text that is not JSON raises
    \<^verbatim>\<open>JSONDecodeError\<close>, and the exception of one row leaves the function with no list.
\<close>

definition load_data :: "env \<Rightarrow> string option \<Rightarrow> py_error + json" where
  "load_data e d =
     (if truthy d then
        (case json_loads e (py_str d) of None \<Rightarrow> Inl JSONDecodeError | Some j \<Rightarrow> Inr j)
      else Inr JNull)"

fun rows_to_alerts :: "env \<Rightarrow> db_row list \<Rightarrow> py_error + loaded_alert list" where
  "rows_to_alerts e [] = Inr []"
| "rows_to_alerts e (r # rs) =
     (case load_data e (c_data r) of
        Inl err \<Rightarrow> Inl err
      | Inr j \<Rightarrow>
          (case rows_to_alerts e rs of
             Inl err \<Rightarrow> Inl err
           | Inr result \<Rightarrow>
               Inr (\<lparr>l_id = c_id r, l_timestamp = c_timestamp r, l_level = c_level r,
                     l_manufacturer = c_manufacturer r,
                     l_manufacturer_phone = c_manufacturer_phone r,
                     l_message = c_message r, l_data = j\<rparr> # result)))"

definition sql_limit :: "int \<Rightarrow> 'a list \<Rightarrow> 'a list" where
  "sql_limit n xs = (if n < 0 then xs else take (nat n) xs)"

definition load_alerts :: "env \<Rightarrow> alerts_db \<Rightarrow> int \<Rightarrow> py_error + loaded_alert list" where
  "load_alerts e db limit =
     (case db of
        None \<Rightarrow> Inl OperationalError
      | Some rows \<Rightarrow>
          if limit < - (2 ^ 63) \<or> 2 ^ 63 \<le> limit then Inl OverflowError
          else rows_to_alerts e (sql_limit limit (sort_key (\<lambda>r. - c_timestamp r) rows)))"

text \<open>
  \<^verbatim>\<open>ConnectionManager\<close>: the list \<^verbatim>\<open>active\<close> of sockets. A socket either takes the
  text (\<open>ws_open\<close>) or its \<^verbatim>\<open>send_text\<close> raises; \<^verbatim>\<open>broadcast\<close> sends to every active
  socket and then disconnects those that raised.
\<close>

text \<open>The payload dictionary \<^verbatim>\<open>_stream_simulator_task\<close> builds and broadcasts.\<close>

record payload =
  p_batch :: "string option"
  p_manufacturer :: "string option"
  p_expiry :: "string option"
  p_expiry_date :: "string option"
  p_test_metric :: "real option"
  p_fake_score :: real
  p_predicted_fake :: int
  p_days_to_expiry :: "int option"

datatype message = AlertMsg alert | TestResultMsg payload

record websocket =
  ws_name :: nat
  ws_open :: bool
  ws_inbox :: "message list"

definition broadcast :: "websocket list \<Rightarrow> message \<Rightarrow> websocket list" where
  "broadcast active m =
     map (\<lambda>ws. ws\<lparr>ws_inbox := ws_inbox ws @ [m]\<rparr>) (filter ws_open active)"

section \<open>The alert rules\<close>

text \<open>The catalog \<^verbatim>\<open>sim.df\<close>: the columns the backend reads.\<close>

record catalog_row =
  row_manufacturer :: "string option"
  row_exp_date :: "string option"
  row_manufacturer_phone :: "string option"

text \<open>
  \<^verbatim>\<open>main.lookup_manufacturer_phone\<close>: no simulator, no phone; else the first phone that is
  not missing among the rows whose manufacturer, as a string, is \<^verbatim>\<open>str(manufacturer)\<close>.
\<close>

definition lookup_manufacturer_phone ::
    "catalog_row list option \<Rightarrow> string option \<Rightarrow> string option" where
  "lookup_manufacturer_phone sim manufacturer =
     (case sim of
        None \<Rightarrow> None
      | Some df \<Rightarrow>
          (case filter (\<lambda>p. p \<noteq> None)
                  (map row_manufacturer_phone
                     (filter (\<lambda>r. (case row_manufacturer r of None \<Rightarrow> [] | Some m \<Rightarrow> m)
                                    = py_str manufacturer) df)) of
             [] \<Rightarrow> None
           | ph # _ \<Rightarrow> ph))"

subsection \<open>\<^verbatim>\<open>main.evaluate_and_handle_alert\<close>\<close>

definition AUTO_ALERT_THRESHOLD :: real where
  "AUTO_ALERT_THRESHOLD = 0.8"

definition WARN_THRESHOLD :: real where
  "WARN_THRESHOLD = 0.5"

text \<open>\<^verbatim>\<open>result.get("fake_score", 0.0)\<close> and \<^verbatim>\<open>result.get("predicted_fake", 0)\<close>.\<close>

definition get_fake_score :: "test_result \<Rightarrow> real" where
  "get_fake_score result = (case r_fake_score result of None \<Rightarrow> 0 | Some s \<Rightarrow> s)"

definition get_predicted_fake :: "test_result \<Rightarrow> int" where
  "get_predicted_fake result = (case r_predicted_fake result of None \<Rightarrow> 0 | Some p \<Rightarrow> p)"

text \<open>Lines 203-228: the days to expiry, \<open>None\<close> when no expiry is given or none parses.\<close>

definition expiry_days :: "env \<Rightarrow> test_result \<Rightarrow> int option" where
  "expiry_days e result =
     (let expiry_raw = py_or (r_expiry result) (py_or (r_expiry_date result) (r_exp_date result))
      in if truthy expiry_raw then days_from_now e (py_str expiry_raw) else None)"

text \<open>Lines 230-238: the expiry rules.\<close>

definition expiry_rule :: "int option \<Rightarrow> (level \<times> string) option" where
  "expiry_rule days =
     (case days of
        None \<Rightarrow> None
      | Some d \<Rightarrow>
          if d \<le> 90 then
            Some (CRITICAL, ''Expiry within 3 months (days_to_expiry='' @ show_int d @ '')'')
          else if d \<le> 120 then
            Some (WARNING, ''Expiry within 4 months (days_to_expiry='' @ show_int d @ '')'')
          else None)"

text \<open>Lines 243-249: the score rules, tried when no expiry rule gave a level.\<close>

definition ml_rule :: "real \<Rightarrow> int \<Rightarrow> (level \<times> string) option" where
  "ml_rule score ml_pred =
     (if ml_pred = 1 \<or> AUTO_ALERT_THRESHOLD \<le> score then
        Some (CRITICAL, ''ML anomaly (score='' @ fmt3 score @ '')'')
      else if WARN_THRESHOLD \<le> score then
        Some (WARNING, ''ML suspicious (score='' @ fmt3 score @ '')'')
      else None)"

definition alert_rule :: "int option \<Rightarrow> real \<Rightarrow> int \<Rightarrow> (level \<times> string) option" where
  "alert_rule days score ml_pred =
     (case expiry_rule days of
        Some lr \<Rightarrow> Some lr
      | None \<Rightarrow> ml_rule score ml_pred)"

text \<open>
  The state the evaluator works on: the alert store and the active sockets. The new
  alert's id (\<^verbatim>\<open>uuid.uuid4()\<close>) and time stamp (\<^verbatim>\<open>time.time()\<close>) are arguments. An
  exception of \<^verbatim>\<open>save_alert_to_db\<close> is caught and dropped (lines 270-273), and the
  broadcast follows in either case.
\<close>

record world =
  w_db :: alerts_db
  w_active :: "websocket list"

definition evaluate_and_handle_alert ::
    "env \<Rightarrow> catalog_row list option \<Rightarrow> string \<Rightarrow> real \<Rightarrow> world \<Rightarrow> test_result
      \<Rightarrow> alert option \<times> world" where
  "evaluate_and_handle_alert e sim uid now w result =
     (let days = expiry_days e result;
          score = get_fake_score result;
          ml_pred = get_predicted_fake result
      in case alert_rule days score ml_pred of
           None \<Rightarrow> (None, w)
         | Some (lvl, reason) \<Rightarrow>
             (let manufacturer =
                    (case r_manufacturer result of
                       Missing \<Rightarrow>
                         Some (if truthy (r_manufacturer_name result)
                               then py_str (r_manufacturer_name result) else ''Unknown'')
                     | Null \<Rightarrow> None
                     | Val m \<Rightarrow> Some m);
                  man_phone =
                    (if truthy (r_manufacturer_phone result) then r_manufacturer_phone result
                     else lookup_manufacturer_phone sim manufacturer);
                  alert =
                    \<lparr>a_id = uid, a_timestamp = now, a_level = level_str lvl,
                     a_manufacturer = manufacturer, a_manufacturer_phone = man_phone,
                     a_message =
                       level_str lvl @ '': '' @ reason @ '' | supplier='' @ py_str manufacturer,
                     a_data = json_dumps e result\<rparr>;
                  db' = (case save_alert_to_db (w_db w) alert of
                           Inl err \<Rightarrow> w_db w
                         | Inr d \<Rightarrow> d)
              in (Some alert, \<lparr>w_db = db', w_active = broadcast (w_active w) (AlertMsg alert)\<rparr>)))"

subsection \<open>\<^verbatim>\<open>alerts.evaluate_and_alert\<close>\<close>

text \<open>
  The evaluator of \<^verbatim>\<open>alerts.py\<close> has its own thresholds (\<^verbatim>\<open>WARN_THRESHOLD = 0.6\<close>,
  "0.6 - 0.8 -> warning") and reads the score and the prediction only. Its
  \<^verbatim>\<open>save_alert\<close> and its callback are not guarded: what they raise leaves the function.
\<close>

definition alerts_AUTO_ALERT_THRESHOLD :: real where
  "alerts_AUTO_ALERT_THRESHOLD = 0.8"

definition alerts_WARN_THRESHOLD :: real where
  "alerts_WARN_THRESHOLD = 0.6"

definition alerts_rule :: "string option \<Rightarrow> real \<Rightarrow> int \<Rightarrow> (level \<times> string) option" where
  "alerts_rule manufacturer score predicted =
     (if predicted = 1 \<or> alerts_AUTO_ALERT_THRESHOLD \<le> score then
        Some (CRITICAL, ''High likelihood of fake medicine detected from ''
                @ py_str manufacturer @ '' (score='' @ fmt3 score @ '')'')
      else if alerts_WARN_THRESHOLD \<le> score then
        Some (WARNING, ''Suspicious medicine detected from ''
                @ py_str manufacturer @ '' (score='' @ fmt3 score @ '')'')
      else None)"

definition evaluate_and_alert ::
    "env \<Rightarrow> string \<Rightarrow> real \<Rightarrow> alerts_db \<Rightarrow> (message \<Rightarrow> 'c \<Rightarrow> py_error + 'c) option \<Rightarrow> 'c
      \<Rightarrow> test_result \<Rightarrow> (py_error + alert option) \<times> alerts_db \<times> 'c" where
  "evaluate_and_alert e uid now db notify_callback c result =
     (let score = get_fake_score result;
          manufacturer = (case r_manufacturer result of Val m \<Rightarrow> Some m | _ \<Rightarrow> None);
          predicted = get_predicted_fake result
      in case alerts_rule manufacturer score predicted of
           None \<Rightarrow> (Inr None, db, c)
         | Some (lvl, msg) \<Rightarrow>
             (let alert =
                    \<lparr>a_id = uid, a_timestamp = now, a_level = level_str lvl,
                     a_manufacturer = manufacturer, a_manufacturer_phone = None,
                     a_message = msg, a_data = json_dumps e result\<rparr>
              in case save_alert db alert of
                   Inl err \<Rightarrow> (Inl err, db, c)
                 | Inr db' \<Rightarrow>
                     (case notify_callback of
                        None \<Rightarrow> (Inr (Some alert), db', c)
                      | Some f \<Rightarrow>
                          (case f (AlertMsg alert) c of
                             Inl err \<Rightarrow> (Inl err, db', c)
                           | Inr c' \<Rightarrow> (Inr (Some alert), db', c')))))"

section \<open>Scoring in \<^verbatim>\<open>main.py\<close>: the stream task and the predict endpoint\<close>

definition parse_days_to_expiry :: "env \<Rightarrow> string option \<Rightarrow> int option" where
  "parse_days_to_expiry e expiry_date =
     (if \<not> truthy expiry_date then None else iso_days e (py_str expiry_date))"

text \<open>\<^verbatim>\<open>random.uniform(a, b)\<close> is \<^verbatim>\<open>a + (b - a) * random()\<close>; the draw \<open>u\<close> of
  \<^verbatim>\<open>random()\<close> is an argument.\<close>

definition uniform :: "real \<Rightarrow> real \<Rightarrow> real \<Rightarrow> real" where
  "uniform a b u = a + (b - a) * u"

definition heuristic_fake_score :: "int option \<Rightarrow> real \<Rightarrow> real" where
  "heuristic_fake_score days_to_expiry u =
     (case days_to_expiry of
        None \<Rightarrow> py_round (uniform 0.0 0.25 u) 3
      | Some d \<Rightarrow>
          if d \<le> 0 then 0.95
          else if d \<le> 90 then 0.85
          else if d \<le> 120 then 0.6
          else py_round (uniform 0.0 0.35 u) 3)"

text \<open>
  One turn of the loop of \<^verbatim>\<open>_stream_simulator_task\<close> (lines 292-336). \<open>sample\<close> is what
  \<^verbatim>\<open>sim.sample()\<close> gave, \<open>None\<close> when there is no simulator, it has no such method (the
  class \<^verbatim>\<open>Simulator\<close> has none) or the call raised; the draws are those of the random
  payload and of the score.
\<close>

record tick_input =
  t_sample :: "payload option"
  t_days :: int
  t_batch :: int
  t_choice :: nat
  t_metric :: real
  t_u :: real
  t_uid :: string
  t_now :: real

definition manufacturer_pool :: "string list" where
  "manufacturer_pool = [''PharmaCorp'', ''HealthMeds'', ''MediCare'', ''GlobalPharma'']"

definition stream_tick ::
    "env \<Rightarrow> catalog_row list option \<Rightarrow> tick_input \<Rightarrow> world \<Rightarrow> payload \<times> world" where
  "stream_tick e sim t w =
     (let p0 = (case t_sample t of
                  Some p \<Rightarrow> p
                | None \<Rightarrow>
                    \<lparr>p_batch = Some (''SIM'' @ show_int (t_batch t)),
                     p_manufacturer = Some (manufacturer_pool ! (t_choice t mod 4)),
                     p_expiry = Some (iso_after e (t_days t)), p_expiry_date = None,
                     p_test_metric = Some (t_metric t),
                     p_fake_score = 0, p_predicted_fake = 0, p_days_to_expiry = None\<rparr>);
          d = parse_days_to_expiry e (py_or (p_expiry p0) (p_expiry_date p0));
          fake_score = heuristic_fake_score d (t_u t);
          predicted_fake = (if AUTO_ALERT_THRESHOLD \<le> fake_score then 1 else 0);
          p = p0\<lparr>p_fake_score := fake_score, p_predicted_fake := predicted_fake,
                 p_days_to_expiry := d\<rparr>;
          w1 = w\<lparr>w_active := broadcast (w_active w) (TestResultMsg p)\<rparr>;
          (al, w2) = evaluate_and_handle_alert e sim (t_uid t) (t_now t) w1
                       \<lparr>r_expiry = py_or (p_expiry p) (p_expiry_date p), r_expiry_date = None,
                        r_exp_date = None,
                        r_manufacturer = (case p_manufacturer p of None \<Rightarrow> Null | Some m \<Rightarrow> Val m),
                        r_manufacturer_name = None, r_manufacturer_phone = None,
                        r_fake_score = Some (p_fake_score p),
                        r_predicted_fake = Some (p_predicted_fake p)\<rparr>
      in (p, w2))"

text \<open>
  The loop \<^verbatim>\<open>while time.time() - start < run_seconds\<close>. \<open>clock k\<close> is the \<open>k\<close>-th value
  \<^verbatim>\<open>time.time()\<close> gives the task, \<open>clock 0\<close> being \<^verbatim>\<open>start\<close>; \<^verbatim>\<open>asyncio.sleep(interval)\<close>
  shows in the clock only. The loop may not end (a clock that stands still), so it runs on
  fuel: \<open>None\<close> is a loop still running when the fuel is spent.
\<close>

fun stream_loop ::
    "nat \<Rightarrow> env \<Rightarrow> catalog_row list option \<Rightarrow> (nat \<Rightarrow> real) \<Rightarrow> real \<Rightarrow> (nat \<Rightarrow> tick_input)
      \<Rightarrow> nat \<Rightarrow> world \<Rightarrow> (payload list \<times> world) option" where
  "stream_loop 0 e sim clock run_seconds inputs k w = None"
| "stream_loop (Suc fuel) e sim clock run_seconds inputs k w =
     (if clock (Suc k) - clock 0 < run_seconds then
        (let (p, w') = stream_tick e sim (inputs k) w
         in case stream_loop fuel e sim clock run_seconds inputs (Suc k) w' of
              None \<Rightarrow> None
            | Some (ps, w'') \<Rightarrow> Some (p # ps, w''))
      else Some ([], w))"

definition stream_simulator_task ::
    "nat \<Rightarrow> env \<Rightarrow> catalog_row list option \<Rightarrow> (nat \<Rightarrow> real) \<Rightarrow> real \<Rightarrow> (nat \<Rightarrow> tick_input)
      \<Rightarrow> world \<Rightarrow> (payload list \<times> world) option" where
  "stream_simulator_task fuel e sim clock run_seconds inputs w =
     stream_loop fuel e sim clock run_seconds inputs 0 w"

text \<open>The endpoint \<^verbatim>\<open>/predict\<close>.\<close>

record predict_request =
  q_manufacturer :: "string option"
  q_expiry_date :: "string option"
  q_batch :: "string option"

record predict_result =
  pr_manufacturer :: string
  pr_batch :: "string option"
  pr_expiry_date :: "string option"
  pr_days_to_expiry :: "int option"
  pr_fake_score :: real
  pr_predicted_fake :: int
  pr_manufacturer_phone :: "string option"

definition predict ::
    "env \<Rightarrow> catalog_row list option \<Rightarrow> predict_request \<Rightarrow> real \<Rightarrow> string \<Rightarrow> real \<Rightarrow> world
      \<Rightarrow> predict_result \<times> world" where
  "predict e sim req u uid now w =
     (let manufacturer = (if truthy (q_manufacturer req) then py_str (q_manufacturer req)
                          else ''Unknown'');
          expiry = (if truthy (q_expiry_date req) then q_expiry_date req else None);
          batch = (if truthy (q_batch req) then q_batch req else None);
          days = parse_days_to_expiry e expiry;
          fake_score = heuristic_fake_score days u;
          predicted_fake = (if AUTO_ALERT_THRESHOLD \<le> fake_score then 1 else 0);
          manufacturer_phone = lookup_manufacturer_phone sim (Some manufacturer);
          (al, w') = evaluate_and_handle_alert e sim uid now w
                       \<lparr>r_expiry = None, r_expiry_date = expiry, r_exp_date = None,
                        r_manufacturer = Val manufacturer, r_manufacturer_name = None,
                        r_manufacturer_phone = manufacturer_phone,
                        r_fake_score = Some fake_score,
                        r_predicted_fake = Some predicted_fake\<rparr>
      in (\<lparr>pr_manufacturer = manufacturer, pr_batch = batch, pr_expiry_date = expiry,
           pr_days_to_expiry = days, pr_fake_score = fake_score,
           pr_predicted_fake = predicted_fake,
           pr_manufacturer_phone = manufacturer_phone\<rparr>, w'))"

section \<open>\<^verbatim>\<open>simulator.py\<close>: the class \<^verbatim>\<open>Simulator\<close>\<close>

subsection \<open>The score \<^verbatim>\<open>_ml_score\<close>\<close>

text \<open>
  The model bundle \<^verbatim>\<open>{"model": ..., "encoder": ...}\<close>. A model has some of the methods
  \<^verbatim>\<open>decision_function\<close>, \<^verbatim>\<open>predict_proba\<close>, \<^verbatim>\<open>predict\<close>, each applied to the row
  \<^verbatim>\<open>[[days, man_enc]]\<close> and giving \<open>None\<close> when it raises; an encoder has
  \<^verbatim>\<open>transform\<close> (\<open>None\<close> when it raises, as on a name it was not fitted on) and its number
  of classes.
\<close>

record model =
  decision_function :: "(int \<Rightarrow> int \<Rightarrow> real option) option"
  predict_proba :: "(int \<Rightarrow> int \<Rightarrow> real option) option"
  predict_class :: "(int \<Rightarrow> int \<Rightarrow> int option) option"

record encoder =
  transform :: "string option \<Rightarrow> int option"
  n_classes :: nat

record scoring_bundle =
  b_model :: model
  b_encoder :: "encoder option"

definition clip :: "real \<Rightarrow> real \<Rightarrow> real \<Rightarrow> real" where
  "clip x lo hi = min hi (max lo x)"

text \<open>Lines 91-117: the score of the model, \<open>None\<close> when the code falls through to the
  heuristic (no method applies, or the method raised).\<close>

definition model_score :: "env \<Rightarrow> scoring_bundle \<Rightarrow> string option \<Rightarrow> string option \<Rightarrow> real option" where
  "model_score e b expiry manufacturer =
     (let days = (case days_from_today e expiry of None \<Rightarrow> 36500 | Some d \<Rightarrow> d);
          man_enc = (case b_encoder b of
                       None \<Rightarrow> 0
                     | Some enc \<Rightarrow>
                         (case transform enc manufacturer of
                            Some i \<Rightarrow> i
                          | None \<Rightarrow> int (n_classes enc) + 1))
      in case decision_function (b_model b) of
           Some f \<Rightarrow>
             (case f days man_enc of
                None \<Rightarrow> None
              | Some v \<Rightarrow> Some (clip (1.0 / (1.0 + exp (- 4.0 * (- v - 0.0)))) 0.0 1.0))
         | None \<Rightarrow>
             (case predict_proba (b_model b) of
                Some f \<Rightarrow> f days man_enc
              | None \<Rightarrow>
                  (case predict_class (b_model b) of
                     Some f \<Rightarrow>
                       (case f days man_enc of
                          None \<Rightarrow> None
                        | Some pred \<Rightarrow> Some (if pred = 1 then 1.0 else 0.0))
                   | None \<Rightarrow> None)))"

text \<open>Lines 119-131: the fallback; \<open>noise\<close> is the draw of \<^verbatim>\<open>np.random.normal(0, 0.05)\<close>.\<close>

definition fallback_score :: "env \<Rightarrow> string option \<Rightarrow> string option \<Rightarrow> real \<Rightarrow> real" where
  "fallback_score e expiry manufacturer noise =
     (let days = (case days_from_today e expiry of None \<Rightarrow> 36500 | Some d \<Rightarrow> d);
          s1 = (if days < 0 then 0.0 + 0.5 * (1 - exp (max (- 3.0) (real_of_int days / 365.0)))
                else 0.0);
          s2 = (if manufacturer \<in> {None, Some [], Some ''Unknown'', Some ''nan''}
                then s1 + 0.3 else s1)
      in clip (s2 + noise) 0.0 1.0)"

definition ml_score ::
    "env \<Rightarrow> scoring_bundle option \<Rightarrow> string option \<Rightarrow> string option \<Rightarrow> real \<Rightarrow> real" where
  "ml_score e model_bundle expiry manufacturer noise =
     (case (case model_bundle of None \<Rightarrow> None | Some b \<Rightarrow> model_score e b expiry manufacturer) of
        Some s \<Rightarrow> s
      | None \<Rightarrow> fallback_score e expiry manufacturer noise)"

subsection \<open>One hardware test: \<^verbatim>\<open>simulate_hardware_test\<close>\<close>

datatype status = OK | ERROR

record sim_event =
  ev_status :: status
  ev_error_msg :: "string option"
  ev_duration :: real
  ev_manufacturer :: "string option"
  ev_expiry :: "string option"
  ev_fake_score :: "real option"
  ev_predicted_fake :: "int option"
  ev_test_result :: "string option"
  ev_raw_sensor :: "real list"
  ev_timestamp :: string
  ev_stream_id :: "string option"
  ev_seq :: "nat option"

text \<open>
  The configuration of a simulator, and what one call draws: the two draws of the latency,
  the draw of the failure test, the noise of the score and of each channel (the values of
  \<^verbatim>\<open>np.random.normal\<close>; \<^verbatim>\<open>noise_level\<close> is the deviation they are drawn with), the
  draw of the flip and the time stamp. \<^verbatim>\<open>time.sleep\<close> raises on a negative duration.
\<close>

record simulator =
  sim_df :: "catalog_row list"
  sim_model_bundle :: "scoring_bundle option"
  sim_hardware_latency :: "real \<times> real"
  sim_sensor_channels :: nat

record hw_draws =
  u_latency :: real
  u_jitter :: real
  u_failure :: real
  n_score :: real
  n_sensor :: "nat \<Rightarrow> real"
  u_flip :: real
  utc_stamp :: string

definition simulate_hardware_test ::
    "env \<Rightarrow> simulator \<Rightarrow> catalog_row \<Rightarrow> real \<Rightarrow> real \<Rightarrow> hw_draws \<Rightarrow> py_error + sim_event" where
  "simulate_hardware_test e sim sample_row jitter simulate_failure_rate d =
     (let duration = uniform (fst (sim_hardware_latency sim)) (snd (sim_hardware_latency sim))
                       (u_latency d)
                     * uniform (1.0 - jitter) (1.0 + jitter) (u_jitter d)
      in if duration < 0 then Inl ValueError
         else if u_failure d < simulate_failure_rate then
           Inr \<lparr>ev_status = ERROR,
                ev_error_msg = Some ''Hardware timeout or sensor disconnect'',
                ev_duration = duration, ev_manufacturer = None, ev_expiry = None,
                ev_fake_score = None, ev_predicted_fake = None, ev_test_result = None,
                ev_raw_sensor = [], ev_timestamp = utc_stamp d @ ''Z'',
                ev_stream_id = None, ev_seq = None\<rparr>
         else
           (let manufacturer = row_manufacturer sample_row;
                expiry_val = row_exp_date sample_row;
                fake_score = ml_score e (sim_model_bundle sim) expiry_val manufacturer (n_score d);
                base_signal = max 0.05 (1.0 - fake_score);
                raw_sensor =
                  map (\<lambda>ch. clip (base_signal
                                   * (1.0 + 0.02 * (real ch - (real (sim_sensor_channels sim) - 1) / 2))
                                   * (1.0 + n_sensor d ch)) 0.0 5.0)
                      [0 ..< sim_sensor_channels sim];
                threshold = 0.7;
                predicted_fake = (if threshold \<le> fake_score then 1 else 0 :: int);
                test_result = (if predicted_fake = 1 then ''FAIL'' else ''PASS'');
                test_result' = (if u_flip d < 0.01
                                then (if test_result = ''FAIL'' then ''PASS'' else ''FAIL'')
                                else test_result)
            in Inr \<lparr>ev_status = OK, ev_error_msg = None, ev_duration = duration,
                    ev_manufacturer = Some (py_str manufacturer), ev_expiry = expiry_val,
                    ev_fake_score = Some (py_round fake_score 4),
                    ev_predicted_fake = Some predicted_fake,
                    ev_test_result = Some test_result', ev_raw_sensor = raw_sensor,
                    ev_timestamp = utc_stamp d @ ''Z'',
                    ev_stream_id = None, ev_seq = None\<rparr>))"

subsection \<open>Streams: \<^verbatim>\<open>stream_tests\<close> and \<^verbatim>\<open>stop_stream\<close>\<close>

text \<open>
  The registry \<^verbatim>\<open>running_streams\<close> maps a stream id to its entry; of the entry
  \<^verbatim>\<open>{"thread": th, "stop_flag": stop_flag}\<close> the model keeps the flag.
\<close>

record stream_info =
  stop_flag :: bool

type_synonym registry = "string \<rightharpoonup> stream_info"

text \<open>\<^verbatim>\<open>stream_tests\<close> up to the start of the thread: the id is \<^verbatim>\<open>run_id or str(uuid.uuid4())\<close>
  and the entry is stored with the flag down.\<close>

definition stream_tests :: "registry \<Rightarrow> string option \<Rightarrow> string \<Rightarrow> string \<times> registry" where
  "stream_tests reg run_id fresh =
     (let stream_id = (if truthy run_id then py_str run_id else fresh)
      in (stream_id, reg(stream_id \<mapsto> \<lparr>stop_flag = False\<rparr>)))"

definition stop_stream :: "registry \<Rightarrow> string \<Rightarrow> bool \<times> registry" where
  "stop_stream reg stream_id =
     (case reg stream_id of
        None \<Rightarrow> (False, reg)
      | Some info \<Rightarrow> (True, reg(stream_id \<mapsto> info\<lparr>stop_flag := True\<rparr>)))"

text \<open>The last lines of the thread (239-241): it deletes its own entry.\<close>

definition runner_cleanup :: "registry \<Rightarrow> string \<Rightarrow> registry" where
  "runner_cleanup reg stream_id = (if stream_id \<in> dom reg then reg(stream_id := None) else reg)"

text \<open>
  The sample selector: a function the caller gives (the model has the sequence of its
  items, \<open>None\<close> from the place where it is exhausted), a list of row indices, or the
  default, an endless random draw of rows. \<open>pick k\<close> is the \<open>k\<close>-th such draw.
\<close>

datatype selector = Callable "nat \<Rightarrow> catalog_row option" | Indices "int list" | Default

datatype gen_item = Item catalog_row | Exhausted | Raised py_error

definition iloc :: "catalog_row list \<Rightarrow> int \<Rightarrow> py_error + catalog_row" where
  "iloc df i =
     (if 0 \<le> i \<and> i < int (length df) then Inr (df ! nat i)
      else if i < 0 \<and> - int (length df) \<le> i then Inr (df ! nat (int (length df) + i))
      else Inl IndexError)"

definition next_sample :: "simulator \<Rightarrow> selector \<Rightarrow> (nat \<Rightarrow> nat) \<Rightarrow> nat \<Rightarrow> gen_item" where
  "next_sample sim sel pick k =
     (case sel of
        Callable g \<Rightarrow> (case g k of None \<Rightarrow> Exhausted | Some r \<Rightarrow> Item r)
      | Indices ixs \<Rightarrow>
          if k < length ixs then
            (case iloc (sim_df sim) (ixs ! k) of Inl err \<Rightarrow> Raised err | Inr r \<Rightarrow> Item r)
          else Exhausted
      | Default \<Rightarrow>
          if sim_df sim = [] then Raised ValueError
          else Item (sim_df sim ! (pick k mod length (sim_df sim))))"

text \<open>
  A started stream. The flag \<^verbatim>\<open>stop_flag["stop"]\<close> is only ever set, by \<^verbatim>\<open>stop_stream\<close>
  in another thread: \<open>s_stop_at\<close> is the number of reads of the flag the thread makes
  before it is set (\<open>None\<close>: it never is). \<open>s_interval\<close> is the interval; the loop
  \<^verbatim>\<open>while slept < interval\<close> adds 0.1 each turn.
\<close>

record stream_cfg =
  s_selector :: selector
  s_interval :: real
  s_stream_id :: string
  s_max_tests :: "int option"
  s_stop_at :: "nat option"
  s_pick :: "nat \<Rightarrow> nat"
  s_draws :: "nat \<Rightarrow> hw_draws"

definition stop_read :: "stream_cfg \<Rightarrow> nat \<Rightarrow> bool" where
  "stop_read cfg r = (case s_stop_at cfg of None \<Rightarrow> False | Some t \<Rightarrow> t \<le> r)"

text \<open>Lines 226-231: the sleep in steps of 0.1 s; \<open>r\<close> counts the reads of the flag, the
  result is the count after the loop.\<close>

fun sleep_poll :: "stream_cfg \<Rightarrow> nat \<Rightarrow> nat \<Rightarrow> nat" where
  "sleep_poll cfg 0 r = r"
| "sleep_poll cfg (Suc q) r = (if stop_read cfg r then Suc r else sleep_poll cfg q (Suc r))"

datatype sim_message = SimResult sim_event | SimStreamEnded string

datatype outcome = Finished | Died py_error

text \<open>
  Lines 213-233, the loop of the thread, on fuel: the messages given to the callback so
  far, and how the loop ended, \<open>None\<close> while it still runs. \<open>count\<close> is the variable of the
  source, and also the number of items taken from the selector.
\<close>

fun runner_loop ::
    "nat \<Rightarrow> env \<Rightarrow> simulator \<Rightarrow> stream_cfg \<Rightarrow> nat \<Rightarrow> nat \<Rightarrow> sim_message list \<times> outcome option" where
  "runner_loop 0 e sim cfg count r = ([], None)"
| "runner_loop (Suc fuel) e sim cfg count r =
     (case next_sample sim (s_selector cfg) (s_pick cfg) count of
        Exhausted \<Rightarrow> ([], Some Finished)
      | Raised err \<Rightarrow> ([], Some (Died err))
      | Item sample \<Rightarrow>
          if stop_read cfg r then ([], Some Finished)
          else
            (case simulate_hardware_test e sim sample 0.05 0.01 (s_draws cfg count) of
               Inl err \<Rightarrow> ([], Some (Died err))
             | Inr res \<Rightarrow>
                 (let res' = res\<lparr>ev_stream_id := Some (s_stream_id cfg), ev_seq := Some count\<rparr>;
                      count' = count + 1
                  in if (case s_max_tests cfg of None \<Rightarrow> False | Some m \<Rightarrow> m \<le> int count')
                     then ([SimResult res'], Some Finished)
                     else
                       (let r' = sleep_poll cfg (nat \<lceil>s_interval cfg * 10\<rceil>) (Suc r)
                        in if stop_read cfg r' then ([SimResult res'], Some Finished)
                           else (case runner_loop fuel e sim cfg count' (Suc r') of
                                   (ms, out) \<Rightarrow> (SimResult res' # ms, out))))))"

text \<open>The thread: the loop from \<^verbatim>\<open>count = 0\<close>, then the message \<^verbatim>\<open>stream_ended\<close>. A
  thread that an exception ended sends nothing more.\<close>

definition runner ::
    "nat \<Rightarrow> env \<Rightarrow> simulator \<Rightarrow> stream_cfg \<Rightarrow> sim_message list \<times> outcome option" where
  "runner fuel e sim cfg =
     (case runner_loop fuel e sim cfg 0 0 of
        (ms, Some Finished) \<Rightarrow> (ms @ [SimStreamEnded (s_stream_id cfg)], Some Finished)
      | (ms, out) \<Rightarrow> (ms, out))"

text \<open>
  The thread of a stream, from its first line to its last: the loop, then the message
  \<^verbatim>\<open>stream_ended\<close>, then the deletion of its entry (lines 235-241). \<open>reg\<close> is the registry
  as it is when the loop has ended. The deletion follows the loop with no \<^verbatim>\<open>finally\<close>: a
  thread that an exception ended leaves the registry as it is.
\<close>

definition thread_run ::
    "nat \<Rightarrow> env \<Rightarrow> simulator \<Rightarrow> stream_cfg \<Rightarrow> registry
      \<Rightarrow> sim_message list \<times> (outcome \<times> registry) option" where
  "thread_run fuel e sim cfg reg =
     (case runner fuel e sim cfg of
        (ms, None) \<Rightarrow> (ms, None)
      | (ms, Some Finished) \<Rightarrow> (ms, Some (Finished, runner_cleanup reg (s_stream_id cfg)))
      | (ms, Some (Died err)) \<Rightarrow> (ms, Some (Died err, reg)))"

section \<open>Notions used in the properties\<close>

text \<open>Whether \<^verbatim>\<open>load_alerts\<close> can decode a stored text, and the number of the other
  rows of a table that \<^verbatim>\<open>ORDER BY timestamp DESC\<close> may put before an alert.\<close>

definition decodes :: "env \<Rightarrow> string option \<Rightarrow> bool" where
  "decodes e d = (case load_data e d of Inl err \<Rightarrow> False | Inr j \<Rightarrow> True)"

definition rows_ahead :: "db_row list \<Rightarrow> alert \<Rightarrow> nat" where
  "rows_ahead rows a =
     length (filter (\<lambda>r. c_id r \<noteq> a_id a \<and> a_timestamp a \<le> c_timestamp r) rows)"

text \<open>The results among the messages a thread gave its callback.\<close>

fun results :: "sim_message list \<Rightarrow> sim_event list" where
  "results [] = []"
| "results (SimResult ev # ms) = ev # results ms"
| "results (SimStreamEnded sid # ms) = results ms"

text \<open>Whether turn \<open>k\<close> of the loop gets a sample from the selector and an event from the
  hardware test.\<close>

definition tick_yields :: "env \<Rightarrow> simulator \<Rightarrow> stream_cfg \<Rightarrow> nat \<Rightarrow> bool" where
  "tick_yields e sim cfg k =
     (case next_sample sim (s_selector cfg) (s_pick cfg) k of
        Item sample \<Rightarrow>
          (case simulate_hardware_test e sim sample 0.05 0.01 (s_draws cfg k) of
             Inl err \<Rightarrow> False
           | Inr ev \<Rightarrow> True)
      | Exhausted \<Rightarrow> False
      | Raised err \<Rightarrow> False)"

text \<open>Whether \<^verbatim>\<open>count >= int(max_tests)\<close> holds at \<open>n\<close>, the count of reads of the stop
  flag after the sleep that follows a test, and whether turn \<open>count\<close> of the loop, begun
  at read \<open>r\<close>, goes on to the next turn.\<close>

definition max_reached :: "stream_cfg \<Rightarrow> nat \<Rightarrow> bool" where
  "max_reached cfg n = (case s_max_tests cfg of None \<Rightarrow> False | Some m \<Rightarrow> m \<le> int n)"

definition after_sleep :: "stream_cfg \<Rightarrow> nat \<Rightarrow> nat" where
  "after_sleep cfg r = sleep_poll cfg (nat \<lceil>s_interval cfg * 10\<rceil>) (Suc r)"

definition loop_continues :: "env \<Rightarrow> simulator \<Rightarrow> stream_cfg \<Rightarrow> nat \<Rightarrow> nat \<Rightarrow> bool" where
  "loop_continues e sim cfg count r =
     (tick_yields e sim cfg count \<and> \<not> stop_read cfg r \<and> \<not> max_reached cfg (Suc count)
      \<and> \<not> stop_read cfg (after_sleep cfg r))"

section \<open>Scenarios\<close>

text \<open>
  Concrete inputs for the scenarios of the specification, with 2026-01-01 as the day the
  dates are counted from: an expiry 30, 100 and 200 days ahead and one 5 days past. The
  JSON functions are given on the one text the scenarios store.
\<close>

definition scenario_days :: "string \<Rightarrow> int option" where
  "scenario_days s =
     (if s = ''2026-01-31'' then Some 30
      else if s = ''2026-04-11'' then Some 100
      else if s = ''2026-07-20'' then Some 200
      else if s = ''2025-12-27'' then Some (- 5)
      else None)"

definition scenario_env :: env where
  "scenario_env =
     \<lparr>days_from_now = scenario_days,
      iso_days = scenario_days,
      iso_after = (\<lambda>n. if n = 30 then ''2026-01-31'' else if n = 100 then ''2026-04-11''
                        else if n = 200 then ''2026-07-20'' else ''2025-12-27''),
      days_from_today = (\<lambda>x. case x of None \<Rightarrow> None | Some s \<Rightarrow> scenario_days s),
      json_dumps = (\<lambda>r. ''{}''),
      json_loads = (\<lambda>s. if s = ''{}'' then Some (JObj []) else None)\<rparr>"

definition scenario_event :: "string option \<Rightarrow> real \<Rightarrow> int \<Rightarrow> test_result" where
  "scenario_event expiry score predicted =
     \<lparr>r_expiry = expiry, r_expiry_date = None, r_exp_date = None,
      r_manufacturer = Val ''PharmaCorp'', r_manufacturer_name = None,
      r_manufacturer_phone = None, r_fake_score = Some score,
      r_predicted_fake = Some predicted\<rparr>"

definition empty_world :: world where
  "empty_world = \<lparr>w_db = Some [], w_active = []\<rparr>"

text \<open>
  A simulator without a model bundle over a catalog of one row, one with a classifier
  whose \<^verbatim>\<open>predict_proba\<close> gives 0.75 for the row, and the draws of one hardware test: a
  latency of 0.85 s, no failure, no flip, a score noise of 0.01 and silent channels.
\<close>

definition scenario_row :: catalog_row where
  "scenario_row =
     \<lparr>row_manufacturer = Some ''PharmaCorp'', row_exp_date = Some ''2026-07-20'',
      row_manufacturer_phone = Some ''555-0100''\<rparr>"

definition scenario_sim :: simulator where
  "scenario_sim =
     \<lparr>sim_df = [scenario_row], sim_model_bundle = None,
      sim_hardware_latency = (0.2, 1.5), sim_sensor_channels = 3\<rparr>"

definition classifier_sim :: simulator where
  "classifier_sim =
     scenario_sim\<lparr>sim_model_bundle :=
       Some \<lparr>b_model = \<lparr>decision_function = None,
                          predict_proba = Some (\<lambda>days man_enc. Some 0.75),
                          predict_class = None\<rparr>,
             b_encoder = None\<rparr>\<rparr>"

definition scenario_draws :: hw_draws where
  "scenario_draws =
     \<lparr>u_latency = 0.5, u_jitter = 0.5, u_failure = 0.5, n_score = 0.01,
      n_sensor = (\<lambda>ch. 0), u_flip = 0.5, utc_stamp = ''2026-01-01T00:00:00''\<rparr>"

text \<open>A bundle whose model has none of the three methods.\<close>

definition no_method_bundle :: scoring_bundle where
  "no_method_bundle =
     \<lparr>b_model = \<lparr>decision_function = None, predict_proba = None, predict_class = None\<rparr>,
      b_encoder = None\<rparr>"

text \<open>A callback that keeps what it is given, an alert as the evaluators build it, and a
  registry with the two streams \<^verbatim>\<open>run-1\<close> and \<^verbatim>\<open>run-2\<close>.\<close>

definition recording_callback :: "message \<Rightarrow> message list \<Rightarrow> py_error + message list" where
  "recording_callback m seen = Inr (seen @ [m])"

definition scenario_alert :: alert where
  "scenario_alert =
     \<lparr>a_id = ''a1'', a_timestamp = 1767225600, a_level = ''CRITICAL'',
      a_manufacturer = Some ''PharmaCorp'', a_manufacturer_phone = None,
      a_message = ''CRITICAL: ML anomaly (score=0.900) | supplier=PharmaCorp'',
      a_data = ''{}''\<rparr>"

text \<open>A row of the alert table a day older than the alert above, and the row that
  \<^verbatim>\<open>save_alert_to_db\<close> writes for the alert above.\<close>

definition older_row :: db_row where
  "older_row =
     \<lparr>c_id = ''a0'', c_timestamp = 1767139200, c_level = ''WARNING'',
      c_manufacturer = None, c_manufacturer_phone = None,
      c_message = ''WARNING: Expiry within 4 months'', c_data = Some ''{}''\<rparr>"

definition stored_row :: db_row where
  "stored_row =
     \<lparr>c_id = ''a1'', c_timestamp = 1767225600, c_level = ''CRITICAL'',
      c_manufacturer = Some ''PharmaCorp'', c_manufacturer_phone = None,
      c_message = ''CRITICAL: ML anomaly (score=0.900) | supplier=PharmaCorp'',
      c_data = Some ''{}''\<rparr>"

definition scenario_registry :: registry where
  "scenario_registry =
     snd (stream_tests (snd (stream_tests Map.empty (Some ''run-1'') ''u1'')) (Some ''run-2'') ''u2'')"

text \<open>A stream over the one row of the catalog with neither \<^verbatim>\<open>max_tests\<close> nor a stop
  request, and one of at most three tests over the default selector.\<close>

definition one_row_stream :: stream_cfg where
  "one_row_stream =
     \<lparr>s_selector = Indices [0], s_interval = 0.5, s_stream_id = ''run-1'',
      s_max_tests = None, s_stop_at = None, s_pick = (\<lambda>k. 0),
      s_draws = (\<lambda>k. scenario_draws)\<rparr>"

definition three_tests_stream :: stream_cfg where
  "three_tests_stream =
     \<lparr>s_selector = Default, s_interval = 0.5, s_stream_id = ''run-2'',
      s_max_tests = Some 3, s_stop_at = None, s_pick = (\<lambda>k. 0),
      s_draws = (\<lambda>k. scenario_draws)\<rparr>"

text \<open>The inputs of the turns of a stream task of \<^verbatim>\<open>main.py\<close>: no sample from the
  simulator, an expiry 30 days ahead.\<close>

definition scenario_tick :: tick_input where
  "scenario_tick =
     \<lparr>t_sample = None, t_days = 30, t_batch = 1000, t_choice = 0, t_metric = 0.5,
      t_u = 0.5, t_uid = ''a1'', t_now = 1767225600\<rparr>"

text \<open>A stream over the list of indices \<^verbatim>\<open>[5]\<close>, out of the range of the catalog of one
  row, and an endless stream under the id \<^verbatim>\<open>run-1\<close>.\<close>

definition out_of_range_stream :: stream_cfg where
  "out_of_range_stream =
     \<lparr>s_selector = Indices [5], s_interval = 0.5, s_stream_id = ''run-1'',
      s_max_tests = None, s_stop_at = None, s_pick = (\<lambda>k. 0),
      s_draws = (\<lambda>k. scenario_draws)\<rparr>"

definition endless_stream :: stream_cfg where
  "endless_stream =
     \<lparr>s_selector = Default, s_interval = 0.5, s_stream_id = ''run-1'',
      s_max_tests = None, s_stop_at = None, s_pick = (\<lambda>k. 0),
      s_draws = (\<lambda>k. scenario_draws)\<rparr>"

section \<open>Properties of the evaluators\<close>

lemma expiry_rule_critical:
  "d \<le> 90 \<Longrightarrow>
     \<exists>reason. expiry_rule (Some d) = Some (CRITICAL, reason)
              \<and> prefix ''Expiry within 3 months'' reason"
  by (simp add: expiry_rule_def)

lemma expiry_rule_warning:
  "90 < d \<Longrightarrow> d \<le> 120 \<Longrightarrow>
     \<exists>reason. expiry_rule (Some d) = Some (WARNING, reason)
              \<and> prefix ''Expiry within 4 months'' reason"
  by (simp add: expiry_rule_def)

lemma evaluate_fires:
  assumes "alert_rule (expiry_days e result) (get_fake_score result)
             (get_predicted_fake result) = Some (lvl, reason)"
  shows "\<exists>a. fst (evaluate_and_handle_alert e sim uid now w result) = Some a
            \<and> a_level a = level_str lvl
            \<and> prefix (level_str lvl @ '': '' @ reason) (a_message a)"
  using assms by (simp add: evaluate_and_handle_alert_def Let_def)

lemma evaluate_silent:
  "(fst (evaluate_and_handle_alert e sim uid now w result) = None)
     = (alert_rule (expiry_days e result) (get_fake_score result)
          (get_predicted_fake result) = None)"
  by (simp add: evaluate_and_handle_alert_def Let_def split: option.splits prod.splits)

lemma scenario_expiry_days:
  "expiry_days scenario_env (scenario_event (Some ''2026-01-31'') s p) = Some 30"
  "expiry_days scenario_env (scenario_event (Some ''2026-04-11'') s p) = Some 100"
  "expiry_days scenario_env (scenario_event (Some ''2026-07-20'') s p) = Some 200"
  "expiry_days scenario_env (scenario_event None s p) = None"
  by (simp_all add: expiry_days_def scenario_env_def scenario_days_def scenario_event_def
      py_or_def truthy_def py_str_def)

text \<open>
  C1, as the code has it. In \<^verbatim>\<open>main.evaluate_and_handle_alert\<close> the expiry rules come
  first: when the days to expiry are known and at most 90 the function returns a CRITICAL
  alert whose message starts with "CRITICAL: Expiry within 3 months", and when they are
  above 90 and at most 120 a WARNING alert whose message starts with "WARNING: Expiry
  within 4 months", whatever the score and the prediction are.
\<close>

theorem expiry_rules_take_precedence:
  assumes "expiry_days e result = Some d"
  shows "(d \<le> 90 \<longrightarrow>
            (\<exists>a. fst (evaluate_and_handle_alert e sim uid now w result) = Some a
                  \<and> a_level a = ''CRITICAL''
                  \<and> prefix ''CRITICAL: Expiry within 3 months'' (a_message a)))
       \<and> (90 < d \<and> d \<le> 120 \<longrightarrow>
            (\<exists>a. fst (evaluate_and_handle_alert e sim uid now w result) = Some a
                  \<and> a_level a = ''WARNING''
                  \<and> prefix ''WARNING: Expiry within 4 months'' (a_message a)))"
proof (intro conjI impI)
  assume le: "d \<le> 90"
  then obtain reason where r: "expiry_rule (Some d) = Some (CRITICAL, reason)"
    and p: "prefix ''Expiry within 3 months'' reason"
    using expiry_rule_critical by blast
  from r assms have "alert_rule (expiry_days e result) (get_fake_score result)
      (get_predicted_fake result) = Some (CRITICAL, reason)"
    by (simp add: alert_rule_def)
  from evaluate_fires [OF this, of sim uid now w] obtain a where
    a: "fst (evaluate_and_handle_alert e sim uid now w result) = Some a"
       "a_level a = level_str CRITICAL"
       "prefix (level_str CRITICAL @ '': '' @ reason) (a_message a)"
    by blast
  from p obtain rest where "reason = ''Expiry within 3 months'' @ rest"
    by (auto simp: prefix_def)
  with a(3) have "prefix ''CRITICAL: Expiry within 3 months'' (a_message a)"
    by (auto simp: prefix_def)
  with a show "\<exists>a. fst (evaluate_and_handle_alert e sim uid now w result) = Some a
                  \<and> a_level a = ''CRITICAL''
                  \<and> prefix ''CRITICAL: Expiry within 3 months'' (a_message a)"
    by auto
next
  assume "90 < d \<and> d \<le> 120"
  then obtain reason where r: "expiry_rule (Some d) = Some (WARNING, reason)"
    and p: "prefix ''Expiry within 4 months'' reason"
    using expiry_rule_warning by blast
  from r assms have "alert_rule (expiry_days e result) (get_fake_score result)
      (get_predicted_fake result) = Some (WARNING, reason)"
    by (simp add: alert_rule_def)
  from evaluate_fires [OF this, of sim uid now w] obtain a where
    a: "fst (evaluate_and_handle_alert e sim uid now w result) = Some a"
       "a_level a = level_str WARNING"
       "prefix (level_str WARNING @ '': '' @ reason) (a_message a)"
    by blast
  from p obtain rest where "reason = ''Expiry within 4 months'' @ rest"
    by (auto simp: prefix_def)
  with a(3) have "prefix ''WARNING: Expiry within 4 months'' (a_message a)"
    by (auto simp: prefix_def)
  with a show "\<exists>a. fst (evaluate_and_handle_alert e sim uid now w result) = Some a
                  \<and> a_level a = ''WARNING''
                  \<and> prefix ''WARNING: Expiry within 4 months'' (a_message a)"
    by auto
qed

text \<open>The two rules at work: an expiry 30 days ahead and one 100 days ahead, both with
  score 0 and no prediction.\<close>

theorem expiry_rules_take_precedence_witness:
  "expiry_days scenario_env (scenario_event (Some ''2026-01-31'') 0 0) = Some 30
   \<and> (\<exists>a. fst (evaluate_and_handle_alert scenario_env None ''a1'' 0 empty_world
                  (scenario_event (Some ''2026-01-31'') 0 0)) = Some a
          \<and> a_level a = ''CRITICAL''
          \<and> prefix ''CRITICAL: Expiry within 3 months'' (a_message a))
   \<and> expiry_days scenario_env (scenario_event (Some ''2026-04-11'') 0 0) = Some 100
   \<and> (\<exists>a. fst (evaluate_and_handle_alert scenario_env None ''a1'' 0 empty_world
                  (scenario_event (Some ''2026-04-11'') 0 0)) = Some a
          \<and> a_level a = ''WARNING''
          \<and> prefix ''WARNING: Expiry within 4 months'' (a_message a))"
proof -
  have h30: "expiry_days scenario_env (scenario_event (Some ''2026-01-31'') 0 0) = Some 30"
    by (rule scenario_expiry_days)
  have h100: "expiry_days scenario_env (scenario_event (Some ''2026-04-11'') 0 0) = Some 100"
    by (rule scenario_expiry_days)
  show ?thesis
    using h30 h100
      expiry_rules_take_precedence [OF h30, of None "''a1''" 0 empty_world]
      expiry_rules_take_precedence [OF h100, of None "''a1''" 0 empty_world]
    by simp
qed

text \<open>
  The evaluator of \<^verbatim>\<open>alerts.py\<close> has no expiry rule: an event that expires in 30 days,
  with score 0.1 and no prediction, gets no alert from it.
\<close>

theorem legacy_evaluator_ignores_expiry:
  "expiry_days scenario_env (scenario_event (Some ''2026-01-31'') 0.1 0) = Some 30
   \<and> fst (evaluate_and_alert scenario_env ''a1'' 0 (Some []) None ()
            (scenario_event (Some ''2026-01-31'') 0.1 0)) = Inr None"
proof
  show "expiry_days scenario_env (scenario_event (Some ''2026-01-31'') 0.1 0) = Some 30"
    by (rule scenario_expiry_days)
  show "fst (evaluate_and_alert scenario_env ''a1'' 0 (Some []) None ()
               (scenario_event (Some ''2026-01-31'') 0.1 0)) = Inr None"
    by (simp add: scenario_event_def evaluate_and_alert_def alerts_rule_def
        get_fake_score_def get_predicted_fake_def alerts_AUTO_ALERT_THRESHOLD_def
        alerts_WARN_THRESHOLD_def)
qed

lemma level_str_inj: "(level_str a = level_str b) = (a = b)"
  by (cases a; cases b) simp_all

lemma evaluate_level:
  "(\<exists>a. fst (evaluate_and_handle_alert e sim uid now w result) = Some a
         \<and> a_level a = level_str lvl)
     = (\<exists>reason. alert_rule (expiry_days e result) (get_fake_score result)
                    (get_predicted_fake result) = Some (lvl, reason))"
  by (cases "alert_rule (expiry_days e result) (get_fake_score result)
                    (get_predicted_fake result)")
     (auto simp: evaluate_and_handle_alert_def Let_def level_str_inj)

lemma ml_rule_level:
  "(\<exists>reason. ml_rule score p = Some (CRITICAL, reason)) = (p = 1 \<or> 0.8 \<le> score)"
  "(\<exists>reason. ml_rule score p = Some (WARNING, reason)) = (0.5 \<le> score \<and> score < 0.8 \<and> p \<noteq> 1)"
  "(ml_rule score p = None) = (score < 0.5 \<and> p \<noteq> 1)"
  by (auto simp: ml_rule_def AUTO_ALERT_THRESHOLD_def WARN_THRESHOLD_def)

lemma alerts_rule_level:
  "(\<exists>msg. alerts_rule m score p = Some (CRITICAL, msg)) = (p = 1 \<or> 0.8 \<le> score)"
  "(\<exists>msg. alerts_rule m score p = Some (WARNING, msg)) = (0.6 \<le> score \<and> score < 0.8 \<and> p \<noteq> 1)"
  "(alerts_rule m score p = None) = (score < 0.6 \<and> p \<noteq> 1)"
  by (auto simp: alerts_rule_def alerts_AUTO_ALERT_THRESHOLD_def alerts_WARN_THRESHOLD_def)

lemma evaluate_and_alert_silent:
  "(fst (evaluate_and_alert e uid now db cb c result) = Inr None)
     = (alerts_rule (case r_manufacturer result of Val m \<Rightarrow> Some m | _ \<Rightarrow> None)
          (get_fake_score result) (get_predicted_fake result) = None)"
  by (auto simp: evaluate_and_alert_def Let_def split: option.splits prod.splits sum.splits)

text \<open>
  C2, as the code has it. For an event without a known expiry,
  \<^verbatim>\<open>main.evaluate_and_handle_alert\<close> returns a CRITICAL alert exactly when the prediction
  is 1 or the score is at least 0.8, a WARNING alert exactly when the score is in
  [0.5, 0.8) and the prediction is not 1, and no alert exactly when the score is below 0.5
  and the prediction is not 1. The evaluator of \<^verbatim>\<open>alerts.py\<close> warns from 0.6: its rule
  chooses CRITICAL on the same condition, WARNING exactly for a score in [0.6, 0.8) without
  prediction, and the function returns \<^verbatim>\<open>None\<close> exactly when the score is below 0.6 and
  the prediction is not 1.
\<close>

theorem score_rules_without_expiry:
  assumes "expiry_days e result = None"
  shows "((\<exists>a. fst (evaluate_and_handle_alert e sim uid now w result) = Some a
                \<and> a_level a = ''CRITICAL'')
            = (get_predicted_fake result = 1 \<or> 0.8 \<le> get_fake_score result))
       \<and> ((\<exists>a. fst (evaluate_and_handle_alert e sim uid now w result) = Some a
                \<and> a_level a = ''WARNING'')
            = (0.5 \<le> get_fake_score result \<and> get_fake_score result < 0.8
               \<and> get_predicted_fake result \<noteq> 1))
       \<and> ((fst (evaluate_and_handle_alert e sim uid now w result) = None)
            = (get_fake_score result < 0.5 \<and> get_predicted_fake result \<noteq> 1))
       \<and> ((\<exists>msg. alerts_rule m (get_fake_score result) (get_predicted_fake result)
                    = Some (CRITICAL, msg))
            = (get_predicted_fake result = 1 \<or> 0.8 \<le> get_fake_score result))
       \<and> ((\<exists>msg. alerts_rule m (get_fake_score result) (get_predicted_fake result)
                    = Some (WARNING, msg))
            = (0.6 \<le> get_fake_score result \<and> get_fake_score result < 0.8
               \<and> get_predicted_fake result \<noteq> 1))
       \<and> ((fst (evaluate_and_alert e uid now db cb c result) = Inr None)
            = (get_fake_score result < 0.6 \<and> get_predicted_fake result \<noteq> 1))"
proof -
  have r: "alert_rule (expiry_days e result) s p = ml_rule s p" for s p
    using assms by (simp add: alert_rule_def expiry_rule_def)
  have c: "(\<exists>a. fst (evaluate_and_handle_alert e sim uid now w result) = Some a
                \<and> a_level a = ''CRITICAL'')
            = (get_predicted_fake result = 1 \<or> 0.8 \<le> get_fake_score result)"
    using evaluate_level [of e sim uid now w result CRITICAL]
    by (simp add: r ml_rule_level)
  have wa: "(\<exists>a. fst (evaluate_and_handle_alert e sim uid now w result) = Some a
                \<and> a_level a = ''WARNING'')
            = (0.5 \<le> get_fake_score result \<and> get_fake_score result < 0.8
               \<and> get_predicted_fake result \<noteq> 1)"
    using evaluate_level [of e sim uid now w result WARNING]
    by (simp add: r ml_rule_level)
  have n: "(fst (evaluate_and_handle_alert e sim uid now w result) = None)
            = (get_fake_score result < 0.5 \<and> get_predicted_fake result \<noteq> 1)"
    by (simp add: evaluate_silent r ml_rule_level)
  have l: "(fst (evaluate_and_alert e uid now db cb c result) = Inr None)
            = (get_fake_score result < 0.6 \<and> get_predicted_fake result \<noteq> 1)"
    by (simp add: evaluate_and_alert_silent alerts_rule_level)
  note lr = alerts_rule_level [of m "get_fake_score result" "get_predicted_fake result"]
  from c wa n l lr show ?thesis by blast
qed

lemma scenario_score:
  "get_fake_score (scenario_event x s p) = s"
  "get_predicted_fake (scenario_event x s p) = p"
  by (simp_all add: get_fake_score_def get_predicted_fake_def scenario_event_def)

text \<open>Three events without expiry: score 0.9 with prediction, score 0.55 and score 0.2
  without.\<close>

theorem score_rules_without_expiry_witness:
  "expiry_days scenario_env (scenario_event None 0.9 1) = None
   \<and> (\<exists>a. fst (evaluate_and_handle_alert scenario_env None ''a1'' 0 empty_world
                  (scenario_event None 0.9 1)) = Some a
          \<and> a_level a = ''CRITICAL'')
   \<and> expiry_days scenario_env (scenario_event None 0.55 0) = None
   \<and> (\<exists>a. fst (evaluate_and_handle_alert scenario_env None ''a1'' 0 empty_world
                  (scenario_event None 0.55 0)) = Some a
          \<and> a_level a = ''WARNING'')
   \<and> fst (evaluate_and_handle_alert scenario_env None ''a1'' 0 empty_world
            (scenario_event None 0.2 0)) = None"
proof -
  have h: "expiry_days scenario_env (scenario_event None s p) = None" for s p
    by (rule scenario_expiry_days)
  show ?thesis
    using h
      score_rules_without_expiry [where e = scenario_env
        and result = "scenario_event None 0.9 1" and sim = None and uid = "''a1''"
        and now = 0 and w = empty_world and db = "Some []" and cb = None and c = "()", OF h]
      score_rules_without_expiry [where e = scenario_env
        and result = "scenario_event None 0.55 0" and sim = None and uid = "''a1''"
        and now = 0 and w = empty_world and db = "Some []" and cb = None and c = "()", OF h]
      score_rules_without_expiry [where e = scenario_env
        and result = "scenario_event None 0.2 0" and sim = None and uid = "''a1''"
        and now = 0 and w = empty_world and db = "Some []" and cb = None and c = "()", OF h]
    by (simp add: scenario_score)
qed

text \<open>
  An event without expiry, with score 0.55 and no prediction: \<^verbatim>\<open>alerts.evaluate_and_alert\<close>
  returns \<^verbatim>\<open>None\<close>, where the claim asks for a WARNING.
\<close>

theorem legacy_evaluator_warns_from_0_6:
  "expiry_days scenario_env (scenario_event None 0.55 0) = None
   \<and> get_fake_score (scenario_event None 0.55 0) = 0.55
   \<and> get_predicted_fake (scenario_event None 0.55 0) = 0
   \<and> fst (evaluate_and_alert scenario_env ''a1'' 0 (Some []) None ()
            (scenario_event None 0.55 0)) = Inr None"
proof (intro conjI)
  show "expiry_days scenario_env (scenario_event None 0.55 0) = None"
    by (rule scenario_expiry_days)
  show "fst (evaluate_and_alert scenario_env ''a1'' 0 (Some []) None ()
               (scenario_event None 0.55 0)) = Inr None"
    by (simp add: scenario_event_def evaluate_and_alert_def alerts_rule_def
        get_fake_score_def get_predicted_fake_def alerts_AUTO_ALERT_THRESHOLD_def
        alerts_WARN_THRESHOLD_def)
qed (simp_all add: scenario_score)

section \<open>Properties of the scores\<close>

lemma round_half_even_ge: "of_int a \<le> y \<Longrightarrow> a \<le> round_half_even y"
proof -
  assume "of_int a \<le> y"
  then have "a \<le> \<lfloor>y\<rfloor>" by (simp add: le_floor_iff)
  moreover have "\<lfloor>y\<rfloor> \<le> round_half_even y"
    by (simp add: round_half_even_def Let_def)
  ultimately show ?thesis by linarith
qed

lemma round_half_even_le: "y \<le> of_int b \<Longrightarrow> round_half_even y \<le> b"
  unfolding round_half_even_def Let_def
  by (auto simp: floor_le_iff)

lemma py_round3_bounds:
  assumes "0 \<le> x" "x \<le> c" "c * 1000 = of_int k"
  shows "0 \<le> py_round x 3 \<and> py_round x 3 \<le> c"
proof -
  have "of_int 0 \<le> x * 10 ^ 3" using assms by simp
  then have lo: "0 \<le> round_half_even (x * 10 ^ 3)" by (rule round_half_even_ge)
  have "x * 10 ^ 3 \<le> of_int k" using assms by simp
  then have hi: "round_half_even (x * 10 ^ 3) \<le> k" by (rule round_half_even_le)
  from hi have "real_of_int (round_half_even (x * 10 ^ 3)) \<le> c * 1000"
    using assms(3) by simp
  with lo show ?thesis by (simp add: py_round_def field_simps)
qed

lemma uniform_bounds: "0 \<le> u \<Longrightarrow> u \<le> 1 \<Longrightarrow> 0 \<le> b \<Longrightarrow> 0 \<le> uniform 0 b u \<and> uniform 0 b u \<le> b"
  by (simp add: uniform_def mult_left_le)

lemma heuristic_random_bounds:
  assumes "0 \<le> u" "u \<le> 1"
  shows "0 \<le> heuristic_fake_score None u \<and> heuristic_fake_score None u \<le> 0.25"
    and "120 < d \<Longrightarrow> 0 \<le> heuristic_fake_score (Some d) u \<and> heuristic_fake_score (Some d) u \<le> 0.35"
proof -
  have a: "0 \<le> uniform 0 0.25 u \<and> uniform 0 0.25 u \<le> 0.25"
    using assms by (intro uniform_bounds) simp_all
  have b: "0 \<le> uniform 0 0.35 u \<and> uniform 0 0.35 u \<le> 0.35"
    using assms by (intro uniform_bounds) simp_all
  show "0 \<le> heuristic_fake_score None u \<and> heuristic_fake_score None u \<le> 0.25"
    using py_round3_bounds [of "uniform 0 0.25 u" "0.25" 250] a
    by (simp add: heuristic_fake_score_def)
  show "120 < d \<Longrightarrow> 0 \<le> heuristic_fake_score (Some d) u \<and> heuristic_fake_score (Some d) u \<le> 0.35"
    using py_round3_bounds [of "uniform 0 0.35 u" "0.35" 350] b
    by (simp add: heuristic_fake_score_def)
qed

lemma heuristic_fixed:
  "d \<le> 0 \<Longrightarrow> heuristic_fake_score (Some d) u = 0.95"
  "0 < d \<Longrightarrow> d \<le> 90 \<Longrightarrow> heuristic_fake_score (Some d) u = 0.85"
  "90 < d \<Longrightarrow> d \<le> 120 \<Longrightarrow> heuristic_fake_score (Some d) u = 0.6"
  by (simp_all add: heuristic_fake_score_def)

lemma clip_unit: "0 \<le> clip x 0 1 \<and> clip x 0 1 \<le> 1"
  by (simp add: clip_def)

lemma ml_score_fallback:
  "ml_score e None x m n = fallback_score e x m n"
  "model_score e b x m = None \<Longrightarrow> ml_score e (Some b) x m n = fallback_score e x m n"
  by (simp_all add: ml_score_def)

lemma fallback_score_formula:
  "fallback_score e x m n =
     clip ((if (case days_from_today e x of None \<Rightarrow> 36500 | Some d \<Rightarrow> d) < 0
            then 0.5 * (1 - exp (max (- 3) (real_of_int
                   (case days_from_today e x of None \<Rightarrow> 36500 | Some d \<Rightarrow> d) / 365)))
            else 0)
           + (if m \<in> {None, Some [], Some ''Unknown'', Some ''nan''} then 0.3 else 0)
           + n) 0 1"
  by (simp add: fallback_score_def Let_def)

text \<open>
  C6, as the code has it. \<^verbatim>\<open>main.heuristic_fake_score\<close>, the only score of \<^verbatim>\<open>main.py\<close>
  (which loads no model), returns exactly 0.95 when the days to expiry are at most 0, 0.85
  when they are in (0, 90], 0.6 when they are in (90, 120], a value in [0, 0.25] when the
  expiry is missing, and a value in [0, 0.35] otherwise. In \<^verbatim>\<open>simulator.py\<close>, when there
  is no model bundle or the model gives no score, \<^verbatim>\<open>_ml_score\<close> returns another
  heuristic: 0.5 * (1 - exp (max (-3) (days / 365))) for an expired sample, plus 0.3 for
  an unknown manufacturer, plus the noise drawn, clipped to [0, 1].
\<close>

theorem heuristic_fallback_scores:
  assumes "0 \<le> u" and "u \<le> 1"
  shows "(d \<le> 0 \<longrightarrow> heuristic_fake_score (Some d) u = 0.95)
       \<and> (0 < d \<and> d \<le> 90 \<longrightarrow> heuristic_fake_score (Some d) u = 0.85)
       \<and> (90 < d \<and> d \<le> 120 \<longrightarrow> heuristic_fake_score (Some d) u = 0.6)
       \<and> (0 \<le> heuristic_fake_score None u \<and> heuristic_fake_score None u \<le> 0.25)
       \<and> (120 < d \<longrightarrow>
            0 \<le> heuristic_fake_score (Some d) u \<and> heuristic_fake_score (Some d) u \<le> 0.35)
       \<and> ml_score e None x m n = fallback_score e x m n
       \<and> (model_score e b x m = None \<longrightarrow>
            ml_score e (Some b) x m n = fallback_score e x m n)
       \<and> fallback_score e x m n =
           clip ((if (case days_from_today e x of None \<Rightarrow> 36500 | Some d \<Rightarrow> d) < 0
                  then 0.5 * (1 - exp (max (- 3) (real_of_int
                         (case days_from_today e x of None \<Rightarrow> 36500 | Some d \<Rightarrow> d) / 365)))
                  else 0)
                 + (if m \<in> {None, Some [], Some ''Unknown'', Some ''nan''} then 0.3 else 0)
                 + n) 0 1
       \<and> 0 \<le> fallback_score e x m n \<and> fallback_score e x m n \<le> 1"
proof -
  have "0 \<le> fallback_score e x m n \<and> fallback_score e x m n \<le> 1"
    unfolding fallback_score_formula by (rule clip_unit)
  then show ?thesis
    using heuristic_fixed [of d u] heuristic_random_bounds(1) [OF assms]
      heuristic_random_bounds(2) [OF assms, of d]
      ml_score_fallback(1) [of e x m n] ml_score_fallback(2) [of e b x m n]
      fallback_score_formula [of e x m n]
    by blast
qed

lemma scenario_fallback:
  "fallback_score scenario_env (Some ''2026-01-31'') (Some ''PharmaCorp'') 0.01 = 0.01"
  by (simp add: fallback_score_def scenario_env_def scenario_days_def clip_def)

text \<open>The draw 0.5 with expiries 5 days past and 30, 100 and 200 days ahead, and a model
  without methods.\<close>

theorem heuristic_fallback_scores_witness:
  "(0::real) \<le> 0.5 \<and> (0.5::real) \<le> 1
   \<and> heuristic_fake_score (Some (- 5)) 0.5 = 0.95
   \<and> heuristic_fake_score (Some 30) 0.5 = 0.85
   \<and> heuristic_fake_score (Some 100) 0.5 = 0.6
   \<and> 0 \<le> heuristic_fake_score None 0.5 \<and> heuristic_fake_score None 0.5 \<le> 0.25
   \<and> 0 \<le> heuristic_fake_score (Some 200) 0.5 \<and> heuristic_fake_score (Some 200) 0.5 \<le> 0.35
   \<and> model_score scenario_env no_method_bundle (Some ''2026-01-31'') (Some ''PharmaCorp'') = None
   \<and> ml_score scenario_env (Some no_method_bundle) (Some ''2026-01-31'') (Some ''PharmaCorp'') 0.01
       = fallback_score scenario_env (Some ''2026-01-31'') (Some ''PharmaCorp'') 0.01"
proof -
  have u: "(0::real) \<le> 0.5" "(0.5::real) \<le> 1" by simp_all
  have m: "model_score scenario_env no_method_bundle (Some ''2026-01-31'') (Some ''PharmaCorp'') = None"
    by (simp add: model_score_def no_method_bundle_def Let_def)
  note t = heuristic_fallback_scores [OF u, where e = scenario_env and b = no_method_bundle
      and x = "Some ''2026-01-31''" and m = "Some ''PharmaCorp''" and n = "0.01"]
  show ?thesis
    using u m t [of "- 5"] t [of 30] t [of 100] t [of 200]
    by simp
qed

text \<open>
  Without a model, \<^verbatim>\<open>_ml_score\<close> on a sample of a known manufacturer that expires in 30
  days, with noise 0.01, is 0.01 and not 0.85.
\<close>

theorem simulator_fallback_is_another_heuristic:
  "days_from_today scenario_env (Some ''2026-01-31'') = Some 30
   \<and> ml_score scenario_env None (Some ''2026-01-31'') (Some ''PharmaCorp'') 0.01 = 0.01
   \<and> ml_score scenario_env None (Some ''2026-01-31'') (Some ''PharmaCorp'') 0.01 \<noteq> 0.85"
proof (intro conjI)
  show "days_from_today scenario_env (Some ''2026-01-31'') = Some 30"
    by (simp add: scenario_env_def scenario_days_def)
  show "ml_score scenario_env None (Some ''2026-01-31'') (Some ''PharmaCorp'') 0.01 = 0.01"
    using scenario_fallback by (simp add: ml_score_def)
  then show "ml_score scenario_env None (Some ''2026-01-31'') (Some ''PharmaCorp'') 0.01 \<noteq> 0.85"
    by simp
qed

section \<open>Properties of the generated events\<close>

lemma stream_tick_predicted:
  "p_predicted_fake (fst (stream_tick e sim t w))
     = (if 0.8 \<le> p_fake_score (fst (stream_tick e sim t w)) then 1 else 0)"
  by (simp add: stream_tick_def Let_def AUTO_ALERT_THRESHOLD_def split: prod.splits)

lemma predict_predicted:
  "pr_predicted_fake (fst (predict e sim req u uid now w))
     = (if 0.8 \<le> pr_fake_score (fst (predict e sim req u uid now w)) then 1 else 0)"
  by (simp add: predict_def Let_def AUTO_ALERT_THRESHOLD_def split: prod.splits)

lemma simulate_ok_fields:
  assumes "simulate_hardware_test e s row j f d = Inr ev" and "ev_status ev = OK"
  shows "ev_predicted_fake ev
           = Some (if 0.7 \<le> ml_score e (sim_model_bundle s) (row_exp_date row)
                               (row_manufacturer row) (n_score d) then 1 else 0)"
    and "ev_fake_score ev
           = Some (py_round (ml_score e (sim_model_bundle s) (row_exp_date row)
                               (row_manufacturer row) (n_score d)) 4)"
  using assms
  by (auto simp: simulate_hardware_test_def Let_def split: if_splits)

lemma simulate_runs:
  assumes "0 \<le> uniform (fst (sim_hardware_latency s)) (snd (sim_hardware_latency s)) (u_latency d)
                 * uniform (1.0 - j) (1.0 + j) (u_jitter d)"
    and "\<not> u_failure d < f"
  shows "\<exists>ev. simulate_hardware_test e s row j f d = Inr ev \<and> ev_status ev = OK"
  using assms by (simp add: simulate_hardware_test_def Let_def)

text \<open>
  C3, as the code has it. In \<^verbatim>\<open>main.py\<close>, the payload of the stream task and the result
  of \<^verbatim>\<open>/predict\<close> have \<^verbatim>\<open>predicted_fake\<close> 1 exactly when their \<^verbatim>\<open>fake_score\<close> is at
  least 0.8. In \<^verbatim>\<open>Simulator.simulate_hardware_test\<close> the threshold is 0.7, for the model and
  for the fallback alike: an OK event has \<^verbatim>\<open>predicted_fake\<close> 1 exactly when the score of
  \<^verbatim>\<open>_ml_score\<close> is at least 0.7, and its \<^verbatim>\<open>fake_score\<close> is that score rounded to four
  decimals.
\<close>

theorem predicted_fake_thresholds:
  "p_predicted_fake (fst (stream_tick e sim t w))
     = (if 0.8 \<le> p_fake_score (fst (stream_tick e sim t w)) then 1 else 0)
   \<and> pr_predicted_fake (fst (predict e sim req u uid now w))
     = (if 0.8 \<le> pr_fake_score (fst (predict e sim req u uid now w)) then 1 else 0)
   \<and> (simulate_hardware_test e s row j f d = Inr ev \<and> ev_status ev = OK \<longrightarrow>
        ev_predicted_fake ev
          = Some (if 0.7 \<le> ml_score e (sim_model_bundle s) (row_exp_date row)
                              (row_manufacturer row) (n_score d) then 1 else 0)
        \<and> ev_fake_score ev
          = Some (py_round (ml_score e (sim_model_bundle s) (row_exp_date row)
                              (row_manufacturer row) (n_score d)) 4))"
  using stream_tick_predicted [of e sim t w] predict_predicted [of e sim req u uid now w]
    simulate_ok_fields [of e s row j f d ev]
  by blast

lemma scenario_runs:
  "\<exists>ev. simulate_hardware_test scenario_env scenario_sim scenario_row 0.05 0.01 scenario_draws
          = Inr ev \<and> ev_status ev = OK"
  by (rule simulate_runs) (simp_all add: scenario_sim_def scenario_draws_def uniform_def)

lemma classifier_runs:
  "\<exists>ev. simulate_hardware_test scenario_env classifier_sim scenario_row 0.05 0.01 scenario_draws
          = Inr ev \<and> ev_status ev = OK"
  by (rule simulate_runs) (simp_all add: classifier_sim_def scenario_sim_def scenario_draws_def uniform_def)

lemma scenario_ml_score:
  "ml_score scenario_env (sim_model_bundle scenario_sim) (row_exp_date scenario_row)
     (row_manufacturer scenario_row) (n_score scenario_draws) = 0.01"
  by (simp add: ml_score_def scenario_sim_def scenario_row_def scenario_draws_def
      fallback_score_def scenario_env_def scenario_days_def clip_def)

lemma classifier_ml_score:
  "ml_score scenario_env (sim_model_bundle classifier_sim) (row_exp_date scenario_row)
     (row_manufacturer scenario_row) (n_score scenario_draws) = 0.75"
  by (simp add: ml_score_def classifier_sim_def scenario_sim_def scenario_row_def
      model_score_def Let_def)

lemma py_round_examples: "py_round 0.75 4 = 0.75" "py_round 0.01 4 = 0.01"
  by (simp_all add: py_round_def round_half_even_def Let_def)

text \<open>One hardware test of the simulator without model: score 0.01, no prediction.\<close>

theorem predicted_fake_thresholds_witness:
  "\<exists>ev. simulate_hardware_test scenario_env scenario_sim scenario_row 0.05 0.01 scenario_draws
          = Inr ev \<and> ev_status ev = OK
        \<and> ev_predicted_fake ev = Some 0 \<and> ev_fake_score ev = Some 0.01"
proof -
  obtain ev where ev:
    "simulate_hardware_test scenario_env scenario_sim scenario_row 0.05 0.01 scenario_draws = Inr ev"
    "ev_status ev = OK"
    using scenario_runs by blast
  from predicted_fake_thresholds [of scenario_env None
      "\<lparr>t_sample = None, t_days = 30, t_batch = 1000, t_choice = 0, t_metric = 0,
         t_u = 0.5, t_uid = ''a1'', t_now = 0\<rparr>" empty_world
      "\<lparr>q_manufacturer = None, q_expiry_date = None, q_batch = None\<rparr>" "0.5" "''a1''" 0
      scenario_sim scenario_row "0.05" "0.01" scenario_draws ev] ev
  have "ev_predicted_fake ev = Some 0 \<and> ev_fake_score ev = Some 0.01"
    using scenario_ml_score py_round_examples by simp
  with ev show ?thesis by blast
qed

text \<open>
  A classifier that gives the sample the probability 0.75: the event of the simulator has
  \<^verbatim>\<open>fake_score\<close> 0.75, below 0.8, and \<^verbatim>\<open>predicted_fake\<close> 1.
\<close>

theorem simulator_predicts_from_0_7:
  "(case simulate_hardware_test scenario_env classifier_sim scenario_row 0.05 0.01 scenario_draws of
      Inl err \<Rightarrow> False
    | Inr ev \<Rightarrow> ev_status ev = OK \<and> ev_fake_score ev = Some 0.75
               \<and> ev_predicted_fake ev = Some 1)"
proof -
  obtain ev where ev:
    "simulate_hardware_test scenario_env classifier_sim scenario_row 0.05 0.01 scenario_draws = Inr ev"
    "ev_status ev = OK"
    using classifier_runs by blast
  from simulate_ok_fields [OF ev] classifier_ml_score py_round_examples
  have "ev_fake_score ev = Some 0.75 \<and> ev_predicted_fake ev = Some 1"
    by simp
  with ev show ?thesis by simp
qed

text \<open>
  C10. The draw of the flip (line 175 of \<^verbatim>\<open>simulator.py\<close>) changes nothing but
  \<^verbatim>\<open>test_result\<close>: two calls of \<^verbatim>\<open>simulate_hardware_test\<close> that differ in that draw only
  fail alike or return events equal in every other entry, \<^verbatim>\<open>fake_score\<close> and
  \<^verbatim>\<open>predicted_fake\<close> among them.
\<close>

theorem flip_changes_test_result_only:
  "map_sum id (\<lambda>ev. ev\<lparr>ev_test_result := None\<rparr>)
       (simulate_hardware_test e s row j f (d\<lparr>u_flip := x\<rparr>))
     = map_sum id (\<lambda>ev. ev\<lparr>ev_test_result := None\<rparr>)
       (simulate_hardware_test e s row j f (d\<lparr>u_flip := y\<rparr>))
   \<and> map_sum id ev_fake_score (simulate_hardware_test e s row j f (d\<lparr>u_flip := x\<rparr>))
     = map_sum id ev_fake_score (simulate_hardware_test e s row j f (d\<lparr>u_flip := y\<rparr>))
   \<and> map_sum id ev_predicted_fake (simulate_hardware_test e s row j f (d\<lparr>u_flip := x\<rparr>))
     = map_sum id ev_predicted_fake (simulate_hardware_test e s row j f (d\<lparr>u_flip := y\<rparr>))"
  by (simp add: simulate_hardware_test_def Let_def)

section \<open>Properties of the stream registry\<close>

lemma stop_stream_result: "(fst (stop_stream reg sid) = False) = (sid \<notin> dom reg)"
  by (auto simp: stop_stream_def split: option.splits)

lemma stop_stream_known:
  assumes "sid \<in> dom reg"
  shows "fst (stop_stream reg sid) = True"
    and "map_option stop_flag (snd (stop_stream reg sid) sid) = Some True"
    and "other \<noteq> sid \<Longrightarrow> snd (stop_stream reg sid) other = reg other"
  using assms by (auto simp: stop_stream_def split: option.splits)

lemma stop_stream_unknown: "sid \<notin> dom reg \<Longrightarrow> snd (stop_stream reg sid) = reg"
  by (auto simp: stop_stream_def split: option.splits)

lemma stop_after_cleanup: "fst (stop_stream (runner_cleanup reg sid) sid) = False"
  by (simp add: stop_stream_def runner_cleanup_def domIff)

lemma stop_after_start:
  "fst (stop_stream (snd (stream_tests reg run_id fresh)) (fst (stream_tests reg run_id fresh)))
     = True"
  by (simp add: stop_stream_def stream_tests_def Let_def)

section \<open>Properties of the alert store\<close>

lemma save_alert_raises: "save_alert db a = Inl OperationalError"
  by (simp add: save_alert_def sqlite_check_insert_def split: option.splits)

lemma evaluate_and_alert_raises:
  assumes "alerts_rule (case r_manufacturer result of Val m \<Rightarrow> Some m | _ \<Rightarrow> None)
             (get_fake_score result) (get_predicted_fake result) \<noteq> None"
  shows "evaluate_and_alert e uid now db cb c result = (Inl OperationalError, db, c)"
  using assms by (auto simp: evaluate_and_alert_def Let_def save_alert_raises)

lemma main_evaluator_survives_store_failure:
  assumes "fst (evaluate_and_handle_alert e sim uid now w result) = Some a"
  shows "w_active (snd (evaluate_and_handle_alert e sim uid now w result))
           = broadcast (w_active w) (AlertMsg a)"
  using assms
  by (auto simp: evaluate_and_handle_alert_def Let_def split: option.splits prod.splits)

text \<open>
  C5 at a failing input. An event with score 0.9 and prediction 1 given to
  \<^verbatim>\<open>alerts.evaluate_and_alert\<close> with a callback: \<^verbatim>\<open>db.save_alert\<close> raises (its statement
  names six columns and has five marks), the exception leaves the function, the callback
  is not called and no alert is returned.
\<close>

theorem legacy_evaluator_aborts_when_store_fails:
  "evaluate_and_alert scenario_env ''a1'' 0 (Some []) (Some recording_callback) []
     (scenario_event None 0.9 1)
   = (Inl OperationalError, Some [], [])"
  by (rule evaluate_and_alert_raises)
     (simp add: alerts_rule_def scenario_event_def get_fake_score_def get_predicted_fake_def)

section \<open>Properties of the streams\<close>

lemma runner_loop_more:
  assumes "loop_continues e sim cfg count r"
  shows "\<exists>ev. ev_seq ev = Some count \<and> ev_stream_id ev = Some (s_stream_id cfg)
            \<and> runner_loop (Suc fuel) e sim cfg count r
                = (SimResult ev # fst (runner_loop fuel e sim cfg (Suc count) (Suc (after_sleep cfg r))),
                   snd (runner_loop fuel e sim cfg (Suc count) (Suc (after_sleep cfg r))))"
  using assms
  by (auto simp: loop_continues_def tick_yields_def max_reached_def after_sleep_def Let_def
      split: gen_item.splits sum.splits prod.splits)

lemma runner_loop_ends:
  assumes "\<not> loop_continues e sim cfg count r"
  shows "snd (runner_loop (Suc fuel) e sim cfg count r) \<noteq> None
       \<and> (fst (runner_loop (Suc fuel) e sim cfg count r) = []
          \<or> (\<exists>ev. ev_seq ev = Some count \<and> ev_stream_id ev = Some (s_stream_id cfg)
                 \<and> fst (runner_loop (Suc fuel) e sim cfg count r) = [SimResult ev]))"
  using assms
  by (auto simp: loop_continues_def tick_yields_def max_reached_def after_sleep_def Let_def
      split: gen_item.splits sum.splits prod.splits)

lemma loop_seq:
  "map ev_seq (results (fst (runner_loop fuel e sim cfg count r)))
     = map Some [count ..< count + length (results (fst (runner_loop fuel e sim cfg count r)))]"
proof (induction fuel arbitrary: count r)
  case 0
  show ?case by simp
next
  case (Suc fuel)
  show ?case
  proof (cases "loop_continues e sim cfg count r")
    case True
    from runner_loop_more [OF True, of fuel] obtain ev where
      ev: "ev_seq ev = Some count"
      and eq: "runner_loop (Suc fuel) e sim cfg count r
                = (SimResult ev # fst (runner_loop fuel e sim cfg (Suc count) (Suc (after_sleep cfg r))),
                   snd (runner_loop fuel e sim cfg (Suc count) (Suc (after_sleep cfg r))))"
      by blast
    define xs where "xs = results (fst (runner_loop fuel e sim cfg (Suc count) (Suc (after_sleep cfg r))))"
    have res: "results (fst (runner_loop (Suc fuel) e sim cfg count r)) = ev # xs"
      unfolding eq by (simp add: xs_def)
    have ih: "map ev_seq xs = map Some [Suc count ..< Suc count + length xs]"
      using Suc.IH [of "Suc count" "Suc (after_sleep cfg r)"] by (simp only: xs_def)
    have up: "[count ..< count + length (ev # xs)] = count # [Suc count ..< Suc count + length xs]"
      by (subst upt_rec) simp
    have "map ev_seq (ev # xs) = map Some (count # [Suc count ..< Suc count + length xs])"
      using ev ih by (simp only: list.map)
    then show ?thesis
      by (simp only: res up)
  next
    case False
    from runner_loop_ends [OF False, of fuel] show ?thesis
      by (auto simp del: runner_loop.simps)
  qed
qed

lemma loop_stream_id:
  "map ev_stream_id (results (fst (runner_loop fuel e sim cfg count r)))
     = replicate (length (results (fst (runner_loop fuel e sim cfg count r))))
         (Some (s_stream_id cfg))"
proof (induction fuel arbitrary: count r)
  case 0
  show ?case by simp
next
  case (Suc fuel)
  show ?case
  proof (cases "loop_continues e sim cfg count r")
    case True
    from runner_loop_more [OF True, of fuel] obtain ev where
      ev: "ev_stream_id ev = Some (s_stream_id cfg)"
      and eq: "runner_loop (Suc fuel) e sim cfg count r
                = (SimResult ev # fst (runner_loop fuel e sim cfg (Suc count) (Suc (after_sleep cfg r))),
                   snd (runner_loop fuel e sim cfg (Suc count) (Suc (after_sleep cfg r))))"
      by blast
    show ?thesis
      unfolding eq using ev Suc.IH [of "Suc count" "Suc (after_sleep cfg r)"]
      by (simp del: runner_loop.simps)
  next
    case False
    from runner_loop_ends [OF False, of fuel] show ?thesis
      by (auto simp del: runner_loop.simps)
  qed
qed

lemma results_append [simp]: "results (xs @ ys) = results xs @ results ys"
  by (induction xs rule: results.induct) simp_all

lemma runner_results:
  "results (fst (runner fuel e sim cfg)) = results (fst (runner_loop fuel e sim cfg 0 0))"
  by (simp add: runner_def split: prod.splits option.splits outcome.splits)

lemma runner_outcome:
  "snd (runner fuel e sim cfg) = snd (runner_loop fuel e sim cfg 0 0)"
  by (simp add: runner_def split: prod.splits option.splits outcome.splits)

text \<open>
  C7. In every stream of \<^verbatim>\<open>stream_tests\<close>, at every moment of its run, the results given
  to the callback so far carry the sequence numbers 0, 1, 2, ... in the order they were
  given, without repeat or gap, and the id of their stream. The counter is a local of the
  thread: a second stream, whatever its id and configuration, counts from 0 as well.
\<close>

theorem sequence_numbers_count_from_zero:
  "map ev_seq (results (fst (runner fuel e sim cfg)))
     = map Some [0 ..< length (results (fst (runner fuel e sim cfg)))]
   \<and> map ev_stream_id (results (fst (runner fuel e sim cfg)))
     = replicate (length (results (fst (runner fuel e sim cfg)))) (Some (s_stream_id cfg))
   \<and> map ev_seq (results (fst (runner fuel' e sim cfg')))
     = map Some [0 ..< length (results (fst (runner fuel' e sim cfg')))]
   \<and> map ev_stream_id (results (fst (runner fuel' e sim cfg')))
     = replicate (length (results (fst (runner fuel' e sim cfg')))) (Some (s_stream_id cfg'))"
  using loop_seq [of fuel e sim cfg 0 0] loop_stream_id [of fuel e sim cfg 0 0]
    loop_seq [of fuel' e sim cfg' 0 0] loop_stream_id [of fuel' e sim cfg' 0 0]
  by (simp add: runner_results)

lemma sleep_poll_ge: "r \<le> sleep_poll cfg q r"
proof (induction q arbitrary: r)
  case 0
  show ?case by simp
next
  case (Suc q)
  from Suc [of "Suc r"] show ?case by auto
qed

lemma ends_by_max:
  "s_max_tests cfg = Some m \<Longrightarrow> 0 < fuel \<Longrightarrow> m \<le> int count + int fuel
     \<Longrightarrow> snd (runner_loop fuel e sim cfg count r) \<noteq> None"
proof (induction fuel arbitrary: count r)
  case 0
  then show ?case by simp
next
  case (Suc fuel)
  show ?case
  proof (cases "loop_continues e sim cfg count r")
    case False
    from runner_loop_ends [OF False, of fuel] show ?thesis by blast
  next
    case True
    then have "\<not> m \<le> int (Suc count)"
      using Suc.prems(1) by (simp add: loop_continues_def max_reached_def)
    with Suc.prems(3) have f: "0 < fuel" and m: "m \<le> int (Suc count) + int fuel"
      by auto
    from runner_loop_more [OF True, of fuel] Suc.IH [OF Suc.prems(1) f m]
    show ?thesis by (auto simp del: runner_loop.simps)
  qed
qed

lemma ends_by_stop:
  "s_stop_at cfg = Some t \<Longrightarrow> 0 < fuel \<Longrightarrow> t < r + fuel
     \<Longrightarrow> snd (runner_loop fuel e sim cfg count r) \<noteq> None"
proof (induction fuel arbitrary: count r)
  case 0
  then show ?case by simp
next
  case (Suc fuel)
  show ?case
  proof (cases "loop_continues e sim cfg count r")
    case False
    from runner_loop_ends [OF False, of fuel] show ?thesis by blast
  next
    case True
    then have "\<not> t \<le> r"
      using Suc.prems(1) by (simp add: loop_continues_def stop_read_def)
    moreover have "Suc r \<le> after_sleep cfg r"
      by (simp add: after_sleep_def sleep_poll_ge)
    ultimately have f: "0 < fuel" and t: "t < Suc (after_sleep cfg r) + fuel"
      using Suc.prems(3) by auto
    from runner_loop_more [OF True, of fuel] Suc.IH [OF Suc.prems(1) f t]
    show ?thesis by (auto simp del: runner_loop.simps)
  qed
qed

lemma ends_by_source:
  "\<not> tick_yields e sim cfg k \<Longrightarrow> count \<le> k \<Longrightarrow> k < count + fuel
     \<Longrightarrow> snd (runner_loop fuel e sim cfg count r) \<noteq> None"
proof (induction fuel arbitrary: count r)
  case 0
  then show ?case by simp
next
  case (Suc fuel)
  show ?case
  proof (cases "loop_continues e sim cfg count r")
    case False
    from runner_loop_ends [OF False, of fuel] show ?thesis by blast
  next
    case True
    then have "tick_yields e sim cfg count" by (simp add: loop_continues_def)
    with Suc.prems(1) have "count \<noteq> k" by auto
    with Suc.prems have c: "Suc count \<le> k" and k: "k < Suc count + fuel" by auto
    from runner_loop_more [OF True, of fuel] Suc.IH [OF Suc.prems(1) c k]
    show ?thesis by (auto simp del: runner_loop.simps)
  qed
qed

lemma never_ends:
  assumes "s_stop_at cfg = None" and "s_max_tests cfg = None"
    and "\<forall>k. tick_yields e sim cfg k"
  shows "snd (runner_loop fuel e sim cfg count r) = None"
proof (induction fuel arbitrary: count r)
  case 0
  show ?case by simp
next
  case (Suc fuel)
  have "loop_continues e sim cfg count r"
    using assms by (simp add: loop_continues_def stop_read_def max_reached_def)
  from runner_loop_more [OF this, of fuel] Suc [of "Suc count" "Suc (after_sleep cfg r)"]
  show ?case by (auto simp del: runner_loop.simps)
qed

lemma runner_ends_iff:
  "(\<exists>fuel. snd (runner fuel e sim cfg) \<noteq> None)
     = (s_stop_at cfg \<noteq> None \<or> s_max_tests cfg \<noteq> None \<or> (\<exists>k. \<not> tick_yields e sim cfg k))"
proof
  assume "\<exists>fuel. snd (runner fuel e sim cfg) \<noteq> None"
  then obtain fuel where fuel: "snd (runner_loop fuel e sim cfg 0 0) \<noteq> None"
    by (auto simp: runner_outcome)
  show "s_stop_at cfg \<noteq> None \<or> s_max_tests cfg \<noteq> None \<or> (\<exists>k. \<not> tick_yields e sim cfg k)"
  proof (rule ccontr)
    assume "\<not> (s_stop_at cfg \<noteq> None \<or> s_max_tests cfg \<noteq> None
               \<or> (\<exists>k. \<not> tick_yields e sim cfg k))"
    then have "s_stop_at cfg = None" "s_max_tests cfg = None" "\<forall>k. tick_yields e sim cfg k"
      by simp_all
    from never_ends [OF this, of fuel 0 0] fuel show False by simp
  qed
next
  assume "s_stop_at cfg \<noteq> None \<or> s_max_tests cfg \<noteq> None \<or> (\<exists>k. \<not> tick_yields e sim cfg k)"
  then consider t where "s_stop_at cfg = Some t" | m where "s_max_tests cfg = Some m"
    | k where "\<not> tick_yields e sim cfg k"
    by auto
  then have "\<exists>fuel. snd (runner_loop fuel e sim cfg 0 0) \<noteq> None"
  proof cases
    case 1
    have "snd (runner_loop (Suc t) e sim cfg 0 0) \<noteq> None"
      by (rule ends_by_stop [OF 1]) simp_all
    then show ?thesis by blast
  next
    case 2
    have "snd (runner_loop (Suc (nat m)) e sim cfg 0 0) \<noteq> None"
      by (rule ends_by_max [OF 2]) simp_all
    then show ?thesis by blast
  next
    case 3
    have "snd (runner_loop (Suc k) e sim cfg 0 0) \<noteq> None"
      by (rule ends_by_source [OF 3]) simp_all
    then show ?thesis by blast
  qed
  then show "\<exists>fuel. snd (runner fuel e sim cfg) \<noteq> None"
    by (simp add: runner_outcome)
qed

lemma stream_loop_ends:
  "run_seconds \<le> clock (Suc k) - clock 0 \<Longrightarrow> j \<le> k \<Longrightarrow> k < j + fuel
     \<Longrightarrow> stream_loop fuel e sim clock run_seconds inputs j w \<noteq> None"
proof (induction fuel arbitrary: j w)
  case 0
  then show ?case by simp
next
  case (Suc fuel)
  show ?case
  proof (cases "clock (Suc j) - clock 0 < run_seconds")
    case False
    then show ?thesis by simp
  next
    case True
    with Suc.prems(1) have "j \<noteq> k" by auto
    with Suc.prems have j: "Suc j \<le> k" and k: "k < Suc j + fuel" by auto
    obtain p w' where t: "stream_tick e sim (inputs j) w = (p, w')"
      by (cases "stream_tick e sim (inputs j) w")
    from Suc.IH [OF Suc.prems(1) j k, of w'] True t show ?thesis
      by (auto simp: Let_def split: option.splits)
  qed
qed

lemma stream_loop_runs_on:
  assumes "\<forall>k. clock (Suc k) - clock 0 < run_seconds"
  shows "stream_loop fuel e sim clock run_seconds inputs j w = None"
proof (induction fuel arbitrary: j w)
  case 0
  show ?case by simp
next
  case (Suc fuel)
  from assms have c: "clock (Suc j) - clock 0 < run_seconds" by blast
  obtain p w' where t: "stream_tick e sim (inputs j) w = (p, w')"
    by (cases "stream_tick e sim (inputs j) w")
  from Suc [of "Suc j" w'] c t show ?case by simp
qed

lemma stream_task_ends_iff:
  "(\<exists>fuel. stream_simulator_task fuel e sim clock run_seconds inputs w \<noteq> None)
     = (\<exists>k. run_seconds \<le> clock (Suc k) - clock 0)"
proof
  assume "\<exists>fuel. stream_simulator_task fuel e sim clock run_seconds inputs w \<noteq> None"
  then obtain fuel where fuel: "stream_loop fuel e sim clock run_seconds inputs 0 w \<noteq> None"
    by (auto simp: stream_simulator_task_def)
  show "\<exists>k. run_seconds \<le> clock (Suc k) - clock 0"
  proof (rule ccontr)
    assume "\<not> (\<exists>k. run_seconds \<le> clock (Suc k) - clock 0)"
    then have "\<forall>k. clock (Suc k) - clock 0 < run_seconds" by (simp add: not_le)
    from stream_loop_runs_on [OF this, of fuel e sim inputs 0 w] fuel show False by simp
  qed
next
  assume "\<exists>k. run_seconds \<le> clock (Suc k) - clock 0"
  then obtain k where "run_seconds \<le> clock (Suc k) - clock 0" by blast
  from stream_loop_ends [OF this, of 0 "Suc k" e sim inputs w]
  have "stream_loop (Suc k) e sim clock run_seconds inputs 0 w \<noteq> None"
    by (simp del: stream_loop.simps)
  then show "\<exists>fuel. stream_simulator_task fuel e sim clock run_seconds inputs w \<noteq> None"
    unfolding stream_simulator_task_def by blast
qed

lemma clock_reaches:
  fixes clock :: "nat \<Rightarrow> real"
  assumes "0 < interval" and "\<forall>k. clock k + interval \<le> clock (Suc k)"
  shows "\<exists>k. run_seconds \<le> clock (Suc k) - clock 0"
proof -
  have grow: "clock 0 + real k * interval \<le> clock k" for k
  proof (induction k)
    case 0
    show ?case by simp
  next
    case (Suc k)
    from assms(2) have "clock k + interval \<le> clock (Suc k)" by blast
    with Suc show ?case by (simp add: algebra_simps)
  qed
  from reals_Archimedean3 [OF assms(1)] obtain n where "run_seconds < real n * interval"
    by blast
  moreover have "real n * interval \<le> real (Suc n) * interval"
    using assms(1) by (simp add: algebra_simps)
  ultimately have "run_seconds \<le> clock (Suc n) - clock 0"
    using grow [of "Suc n"] by linarith
  then show ?thesis by blast
qed

text \<open>
  C4, as the code has it. The loop of a thread of \<^verbatim>\<open>stream_tests\<close> comes to an end exactly
  when a stop is requested, \<^verbatim>\<open>max_tests\<close> is given, or some turn gets no event, the selector
  being exhausted or a call having raised; it has no duration. The loop of
  \<^verbatim>\<open>_stream_simulator_task\<close> comes to an end exactly when the clock shows, at some test of
  the loop, that \<^verbatim>\<open>run_seconds\<close> have passed since the start, which it does when every turn
  takes at least a positive interval; it has neither a maximum of events nor a stop.
\<close>

theorem stream_loops_end:
  "((\<exists>fuel. snd (runner fuel e sim cfg) \<noteq> None)
      = (s_stop_at cfg \<noteq> None \<or> s_max_tests cfg \<noteq> None \<or> (\<exists>k. \<not> tick_yields e sim cfg k)))
   \<and> ((\<exists>fuel. stream_simulator_task fuel e catalog clock run_seconds inputs w \<noteq> None)
      = (\<exists>k. run_seconds \<le> clock (Suc k) - clock 0))
   \<and> (0 < interval \<and> (\<forall>k. clock k + interval \<le> clock (Suc k)) \<longrightarrow>
        (\<exists>fuel. stream_simulator_task fuel e catalog clock run_seconds inputs w \<noteq> None))"
  using runner_ends_iff [of e sim cfg]
    stream_task_ends_iff [of e catalog clock run_seconds inputs w]
    clock_reaches [of interval clock run_seconds]
  by blast

text \<open>A stream of at most three tests, and a stream task of 30 seconds on a clock that
  goes on by a second each turn.\<close>

theorem stream_loops_end_witness:
  "s_max_tests three_tests_stream \<noteq> None
   \<and> (\<exists>fuel. snd (runner fuel scenario_env scenario_sim three_tests_stream) \<noteq> None)
   \<and> (0::real) < 1 \<and> (\<forall>k. real k + 1 \<le> real (Suc k))
   \<and> (\<exists>fuel. stream_simulator_task fuel scenario_env None real 30 (\<lambda>k. scenario_tick)
                empty_world \<noteq> None)"
proof -
  have m: "s_max_tests three_tests_stream \<noteq> None" by (simp add: three_tests_stream_def)
  have c: "(0::real) < 1 \<and> (\<forall>k. real k + 1 \<le> real (Suc k))" by simp
  show ?thesis
    using m c
      stream_loops_end [of scenario_env scenario_sim three_tests_stream None real 30
        "\<lambda>k. scenario_tick" empty_world 1]
    by blast
qed

lemma one_row_first: "loop_continues scenario_env scenario_sim one_row_stream 0 0"
proof -
  have "next_sample scenario_sim (Indices [0]) (\<lambda>k. 0) 0 = Item scenario_row"
    by (simp add: next_sample_def iloc_def scenario_sim_def)
  then have "tick_yields scenario_env scenario_sim one_row_stream 0"
    using scenario_runs by (auto simp: tick_yields_def one_row_stream_def)
  then show ?thesis
    by (simp add: loop_continues_def stop_read_def max_reached_def one_row_stream_def)
qed

text \<open>
  A stream over the list of indices \<^verbatim>\<open>[0]\<close>, with no \<^verbatim>\<open>max_tests\<close> and never stopped:
  the thread gives one result and ends, the list being exhausted.
\<close>

theorem stream_ends_when_selector_is_exhausted:
  "s_stop_at one_row_stream = None \<and> s_max_tests one_row_stream = None
   \<and> snd (runner 2 scenario_env scenario_sim one_row_stream) = Some Finished
   \<and> length (results (fst (runner 2 scenario_env scenario_sim one_row_stream))) = 1"
proof -
  have two: "2 = Suc (Suc 0)" by simp
  from runner_loop_more [OF one_row_first, of "Suc 0"] obtain ev where
    eq: "runner_loop (Suc (Suc 0)) scenario_env scenario_sim one_row_stream 0 0
          = (SimResult ev # fst (runner_loop (Suc 0) scenario_env scenario_sim one_row_stream
                (Suc 0) (Suc (after_sleep one_row_stream 0))),
             snd (runner_loop (Suc 0) scenario_env scenario_sim one_row_stream
                (Suc 0) (Suc (after_sleep one_row_stream 0))))"
    by blast
  have last: "runner_loop (Suc 0) scenario_env scenario_sim one_row_stream (Suc 0) r
      = ([], Some Finished)" for r
    by (simp add: next_sample_def one_row_stream_def)
  have "runner_loop 2 scenario_env scenario_sim one_row_stream 0 0
      = ([SimResult ev], Some Finished)"
    unfolding two eq last by simp
  then show ?thesis
    by (simp add: runner_def one_row_stream_def)
qed

section \<open>Properties of reading the alert store\<close>

lemma rows_to_alerts_decoded:
  assumes "\<forall>r \<in> set rs. decodes e (c_data r)"
  shows "rows_to_alerts e rs
           = Inr (map (\<lambda>r. \<lparr>l_id = c_id r, l_timestamp = c_timestamp r, l_level = c_level r,
                              l_manufacturer = c_manufacturer r,
                              l_manufacturer_phone = c_manufacturer_phone r,
                              l_message = c_message r,
                              l_data = (case load_data e (c_data r) of
                                          Inl err \<Rightarrow> JNull | Inr j \<Rightarrow> j)\<rparr>) rs)"
  using assms
  by (induction rs) (auto simp: decodes_def split: sum.splits)

lemma rows_to_alerts_raises:
  assumes "r \<in> set rs" and "\<not> decodes e (c_data r)"
  shows "\<exists>err. rows_to_alerts e rs = Inl err"
  using assms
  by (induction rs) (auto simp: decodes_def split: sum.splits)

lemma sorted_prefix_ahead:
  assumes "sorted (map f ys)" and "ys = us @ r # vs"
  shows "length us < length (filter (\<lambda>y. f y \<le> f r) ys)"
proof -
  have "\<forall>u \<in> set us. f u \<le> f r"
    using assms by (auto simp: sorted_append)
  then have "filter (\<lambda>y. f y \<le> f r) us = us" by (simp add: filter_id_conv)
  then show ?thesis using assms(2) by simp
qed

lemma newest_within_limit:
  fixes f :: "'a \<Rightarrow> real"
  assumes "r \<in> set xs" and "length (filter (\<lambda>y. f y \<le> f r) xs) \<le> n"
  shows "r \<in> set (take n (sort_key f xs))"
proof -
  let ?ys = "sort_key f xs"
  have "r \<in> set ?ys" using assms(1) by simp
  from split_list [OF this] obtain us vs where ys: "?ys = us @ r # vs" by blast
  have s: "sorted (map f ?ys)" by simp
  have "length (filter (\<lambda>y. f y \<le> f r) ?ys) = length (filter (\<lambda>y. f y \<le> f r) xs)"
    by (simp add: filter_sort)
  with sorted_prefix_ahead [OF s ys] assms(2) have "length us < n" by simp
  then have "take n ?ys = us @ r # take (n - Suc (length us)) vs"
    by (simp add: ys take_Cons')
  then show ?thesis by simp
qed

lemma load_alerts_overflow:
  assumes "limit < - (2 ^ 63) \<or> 2 ^ 63 \<le> limit"
  shows "load_alerts e (Some rows) limit = Inl OverflowError"
  using assms by (simp add: load_alerts_def)

lemma load_alerts_undecodable:
  assumes "\<not> decodes e (c_data r)" and "limit < - (2 ^ 63) \<or> 2 ^ 63 \<le> limit \<or> limit \<noteq> 0"
  shows "\<exists>err. load_alerts e (Some [r]) limit = Inl err"
proof (cases "limit < - (2 ^ 63) \<or> 2 ^ 63 \<le> limit")
  case True
  then show ?thesis by (simp add: load_alerts_def)
next
  case False
  with assms(2) have "sql_limit limit [r] = [r]"
    by (cases "limit < 0") (simp_all add: sql_limit_def take_Cons' nat_eq_iff)
  moreover have "\<exists>err. rows_to_alerts e [r] = Inl err"
    using rows_to_alerts_raises [of r "[r]" e] assms(1) by simp
  ultimately show ?thesis using False by (simp add: load_alerts_def)
qed

text \<open>
  C9, as the code has it. An alert that \<^verbatim>\<open>save_alert_to_db\<close> has stored is read back by
  \<^verbatim>\<open>load_alerts\<close> exactly once under its id, with the id, time stamp, level, manufacturer,
  phone and message that were stored, when the call returns a list that reaches it: the
  limit fits 64 bits, every stored text is empty or JSON, and the limit is negative or
  above the number of other rows that are as new as the alert. Its \<^verbatim>\<open>data\<close> is then the
  value \<^verbatim>\<open>json.loads\<close> decodes from the stored text (\<^verbatim>\<open>None\<close> for an empty text), not
  the text itself.
\<close>

theorem store_round_trip:
  assumes "save_alert_to_db (Some rows) a = Inr db'"
    and "- (2 ^ 63) \<le> limit" and "limit < 2 ^ 63"
    and "\<forall>r \<in> set rows. decodes e (c_data r)" and "decodes e (Some (a_data a))"
    and "limit < 0 \<or> int (rows_ahead rows a) < limit"
  shows "\<exists>alerts b. load_alerts e db' limit = Inr alerts
            \<and> filter (\<lambda>b. l_id b = a_id a) alerts = [b]
            \<and> l_id b = a_id a \<and> l_timestamp b = a_timestamp a \<and> l_level b = a_level a
            \<and> l_manufacturer b = a_manufacturer a
            \<and> l_manufacturer_phone b = a_manufacturer_phone a
            \<and> l_message b = a_message a
            \<and> load_data e (Some (a_data a)) = Inr (l_data b)"
proof -
  define r where "r = \<lparr>c_id = a_id a, c_timestamp = a_timestamp a, c_level = a_level a,
                   c_manufacturer = a_manufacturer a,
                   c_manufacturer_phone = a_manufacturer_phone a,
                   c_message = a_message a, c_data = Some (a_data a)\<rparr>"
  define rows' where "rows' = filter (\<lambda>r. c_id r \<noteq> a_id a) rows @ [r]"
  define f where "f = (\<lambda>r::db_row. - c_timestamp r)"
  define cvt where "cvt = (\<lambda>r::db_row. \<lparr>l_id = c_id r, l_timestamp = c_timestamp r, l_level = c_level r,
                              l_manufacturer = c_manufacturer r,
                              l_manufacturer_phone = c_manufacturer_phone r,
                              l_message = c_message r,
                              l_data = (case load_data e (c_data r) of
                                          Inl err \<Rightarrow> JNull | Inr j \<Rightarrow> j)\<rparr>)"
  define sel where "sel = sql_limit limit (sort_key f rows')"
  have db: "db' = Some rows'"
    using assms(1)
    by (simp add: save_alert_to_db_def sqlite_check_insert_def rows'_def r_def)
  have dec: "\<forall>x \<in> set rows'. decodes e (c_data x)"
    using assms(4,5) by (auto simp: rows'_def r_def)
  have "set sel \<subseteq> set rows'"
    by (auto simp: sel_def sql_limit_def dest: in_set_takeD)
  with dec have "\<forall>x \<in> set sel. decodes e (c_data x)" by blast
  from rows_to_alerts_decoded [OF this]
  have load: "load_alerts e db' limit = Inr (map cvt sel)"
    using assms(2,3) by (simp add: load_alerts_def db sel_def f_def cvt_def)
  have one: "filter (\<lambda>x. c_id x = a_id a) (sort_key f rows') = [r]"
    by (simp add: filter_sort rows'_def r_def)
  have ahead: "length (filter (\<lambda>y. f y \<le> f r) rows') = Suc (rows_ahead rows a)"
    by (simp add: rows'_def r_def f_def rows_ahead_def conj_commute)
  have rsel: "r \<in> set sel"
  proof (cases "limit < 0")
    case True
    then show ?thesis by (simp add: sel_def sql_limit_def rows'_def)
  next
    case False
    with assms(6) have "Suc (rows_ahead rows a) \<le> nat limit" by linarith
    with ahead have "length (filter (\<lambda>y. f y \<le> f r) rows') \<le> nat limit" by simp
    from newest_within_limit [OF _ this] False show ?thesis
      by (simp add: sel_def sql_limit_def rows'_def)
  qed
  have "filter (\<lambda>x. c_id x = a_id a) sel = [r]"
  proof -
    from rsel have "r \<in> set (filter (\<lambda>x. c_id x = a_id a) sel)" by (simp add: r_def)
    moreover have "length (filter (\<lambda>x. c_id x = a_id a) sel) \<le> 1"
    proof (cases "limit < 0")
      case True
      then show ?thesis using one by (simp add: sel_def sql_limit_def)
    next
      case False
      have "sort_key f rows' = take (nat limit) (sort_key f rows') @ drop (nat limit) (sort_key f rows')"
        by simp
      then have "filter (\<lambda>x. c_id x = a_id a) (sort_key f rows')
          = filter (\<lambda>x. c_id x = a_id a) (take (nat limit) (sort_key f rows'))
            @ filter (\<lambda>x. c_id x = a_id a) (drop (nat limit) (sort_key f rows'))"
        by (metis filter_append)
      with one have "length (filter (\<lambda>x. c_id x = a_id a) (take (nat limit) (sort_key f rows'))) \<le> 1"
        by (metis le_add1 length_append length_Cons list.size(3) One_nat_def)
      with False show ?thesis by (simp add: sel_def sql_limit_def)
    qed
    ultimately show ?thesis
      by (cases "filter (\<lambda>x. c_id x = a_id a) sel") (auto split: if_splits)
  qed
  then have filt: "filter (\<lambda>b. l_id b = a_id a) (map cvt sel) = [cvt r]"
    by (simp add: filter_map comp_def cvt_def)
  have data: "load_data e (Some (a_data a)) = Inr (l_data (cvt r))"
    using assms(5) by (simp add: cvt_def r_def decodes_def split: sum.splits)
  have fields: "l_id (cvt r) = a_id a" "l_timestamp (cvt r) = a_timestamp a"
    "l_level (cvt r) = a_level a" "l_manufacturer (cvt r) = a_manufacturer a"
    "l_manufacturer_phone (cvt r) = a_manufacturer_phone a" "l_message (cvt r) = a_message a"
    by (simp_all add: cvt_def r_def)
  from load filt data fields show ?thesis by blast
qed

lemma scenario_saved:
  "save_alert_to_db (Some []) scenario_alert
     = Inr (Some [\<lparr>c_id = ''a1'', c_timestamp = 1767225600, c_level = ''CRITICAL'',
                   c_manufacturer = Some ''PharmaCorp'', c_manufacturer_phone = None,
                   c_message = ''CRITICAL: ML anomaly (score=0.900) | supplier=PharmaCorp'',
                   c_data = Some ''{}''\<rparr>])"
  by (simp add: save_alert_to_db_def sqlite_check_insert_def scenario_alert_def)

lemma scenario_loaded:
  "load_alerts scenario_env
     (Some [\<lparr>c_id = ''a1'', c_timestamp = 1767225600, c_level = ''CRITICAL'',
              c_manufacturer = Some ''PharmaCorp'', c_manufacturer_phone = None,
              c_message = ''CRITICAL: ML anomaly (score=0.900) | supplier=PharmaCorp'',
              c_data = Some ''{}''\<rparr>]) 100
     = Inr [\<lparr>l_id = ''a1'', l_timestamp = 1767225600, l_level = ''CRITICAL'',
              l_manufacturer = Some ''PharmaCorp'', l_manufacturer_phone = None,
              l_message = ''CRITICAL: ML anomaly (score=0.900) | supplier=PharmaCorp'',
              l_data = JObj []\<rparr>]"
  by (simp add: load_alerts_def sql_limit_def load_data_def scenario_env_def truthy_def
      py_str_def)

text \<open>An alert stored in a table that has one older row, and read back with limit 1.\<close>

theorem store_round_trip_witness:
  "save_alert_to_db (Some [older_row]) scenario_alert = Inr (Some [older_row, stored_row])
   \<and> - (2 ^ 63) \<le> (1::int) \<and> (1::int) < 2 ^ 63
   \<and> decodes scenario_env (c_data older_row)
   \<and> decodes scenario_env (Some (a_data scenario_alert))
   \<and> int (rows_ahead [older_row] scenario_alert) < 1
   \<and> (\<exists>alerts b. load_alerts scenario_env (Some [older_row, stored_row]) 1 = Inr alerts
        \<and> filter (\<lambda>b. l_id b = ''a1'') alerts = [b]
        \<and> l_timestamp b = 1767225600 \<and> l_level b = ''CRITICAL''
        \<and> l_manufacturer b = Some ''PharmaCorp'' \<and> l_manufacturer_phone b = None
        \<and> l_message b = ''CRITICAL: ML anomaly (score=0.900) | supplier=PharmaCorp''
        \<and> l_data b = JObj [])"
proof -
  have saved: "save_alert_to_db (Some [older_row]) scenario_alert
      = Inr (Some [older_row, stored_row])"
    by (simp add: save_alert_to_db_def sqlite_check_insert_def scenario_alert_def
        older_row_def stored_row_def)
  have lim: "- (2 ^ 63) \<le> (1::int)" "(1::int) < 2 ^ 63" by simp_all
  have old: "decodes scenario_env (c_data older_row)"
    by (simp add: decodes_def load_data_def older_row_def scenario_env_def truthy_def
        py_str_def)
  then have rows: "\<forall>r \<in> set [older_row]. decodes scenario_env (c_data r)" by simp
  have d: "decodes scenario_env (Some (a_data scenario_alert))"
    by (simp add: decodes_def load_data_def scenario_alert_def scenario_env_def truthy_def
        py_str_def)
  have ld: "load_data scenario_env (Some (a_data scenario_alert)) = Inr (JObj [])"
    by (simp add: load_data_def scenario_alert_def scenario_env_def truthy_def py_str_def)
  have ahead: "int (rows_ahead [older_row] scenario_alert) < 1"
    by (simp add: rows_ahead_def older_row_def scenario_alert_def)
  then have ah: "(1::int) < 0 \<or> int (rows_ahead [older_row] scenario_alert) < 1" by simp
  from store_round_trip [OF saved lim rows d ah]
  obtain alerts b where
    "load_alerts scenario_env (Some [older_row, stored_row]) 1 = Inr alerts"
    "filter (\<lambda>b. l_id b = a_id scenario_alert) alerts = [b]"
    "l_timestamp b = a_timestamp scenario_alert" "l_level b = a_level scenario_alert"
    "l_manufacturer b = a_manufacturer scenario_alert"
    "l_manufacturer_phone b = a_manufacturer_phone scenario_alert"
    "l_message b = a_message scenario_alert"
    "load_data scenario_env (Some (a_data scenario_alert)) = Inr (l_data b)"
    by blast
  then have "load_alerts scenario_env (Some [older_row, stored_row]) 1 = Inr alerts
        \<and> filter (\<lambda>b. l_id b = ''a1'') alerts = [b]
        \<and> l_timestamp b = 1767225600 \<and> l_level b = ''CRITICAL''
        \<and> l_manufacturer b = Some ''PharmaCorp'' \<and> l_manufacturer_phone b = None
        \<and> l_message b = ''CRITICAL: ML anomaly (score=0.900) | supplier=PharmaCorp''
        \<and> l_data b = JObj []"
    using ld by (simp add: scenario_alert_def)
  then have ex: "\<exists>alerts b. load_alerts scenario_env (Some [older_row, stored_row]) 1 = Inr alerts
        \<and> filter (\<lambda>b. l_id b = ''a1'') alerts = [b]
        \<and> l_timestamp b = 1767225600 \<and> l_level b = ''CRITICAL''
        \<and> l_manufacturer b = Some ''PharmaCorp'' \<and> l_manufacturer_phone b = None
        \<and> l_message b = ''CRITICAL: ML anomaly (score=0.900) | supplier=PharmaCorp''
        \<and> l_data b = JObj []"
    by blast
  from saved lim old d ahead ex show ?thesis by (intro conjI)
qed

text \<open>
  An alert whose \<^verbatim>\<open>data\<close> is the text \<^verbatim>\<open>{}\<close>, stored in an empty table. Read back with
  limit 100, its \<^verbatim>\<open>data\<close> is the empty object, which is not the string that was stored;
  read back with limit 0, it is not in the list.
\<close>

theorem stored_data_comes_back_decoded:
  "save_alert_to_db (Some []) scenario_alert
     = Inr (Some [\<lparr>c_id = ''a1'', c_timestamp = 1767225600, c_level = ''CRITICAL'',
                   c_manufacturer = Some ''PharmaCorp'', c_manufacturer_phone = None,
                   c_message = ''CRITICAL: ML anomaly (score=0.900) | supplier=PharmaCorp'',
                   c_data = Some ''{}''\<rparr>])
   \<and> load_alerts scenario_env
          (Some [\<lparr>c_id = ''a1'', c_timestamp = 1767225600, c_level = ''CRITICAL'',
                   c_manufacturer = Some ''PharmaCorp'', c_manufacturer_phone = None,
                   c_message = ''CRITICAL: ML anomaly (score=0.900) | supplier=PharmaCorp'',
                   c_data = Some ''{}''\<rparr>]) 100
       = Inr [\<lparr>l_id = ''a1'', l_timestamp = 1767225600, l_level = ''CRITICAL'',
                l_manufacturer = Some ''PharmaCorp'', l_manufacturer_phone = None,
                l_message = ''CRITICAL: ML anomaly (score=0.900) | supplier=PharmaCorp'',
                l_data = JObj []\<rparr>]
   \<and> a_data scenario_alert = ''{}''
   \<and> JObj [] \<noteq> JStr ''{}''
   \<and> load_alerts scenario_env
          (Some [\<lparr>c_id = ''a1'', c_timestamp = 1767225600, c_level = ''CRITICAL'',
                   c_manufacturer = Some ''PharmaCorp'', c_manufacturer_phone = None,
                   c_message = ''CRITICAL: ML anomaly (score=0.900) | supplier=PharmaCorp'',
                   c_data = Some ''{}''\<rparr>]) 0
       = Inr []"
proof (intro conjI)
  show "a_data scenario_alert = ''{}''" by (simp add: scenario_alert_def)
  show "JObj [] \<noteq> JStr ''{}''" by simp
  show "load_alerts scenario_env
          (Some [\<lparr>c_id = ''a1'', c_timestamp = 1767225600, c_level = ''CRITICAL'',
                   c_manufacturer = Some ''PharmaCorp'', c_manufacturer_phone = None,
                   c_message = ''CRITICAL: ML anomaly (score=0.900) | supplier=PharmaCorp'',
                   c_data = Some ''{}''\<rparr>]) 0
       = Inr []"
    by (simp add: load_alerts_def sql_limit_def)
qed (rule scenario_saved, rule scenario_loaded)

section \<open>Properties of stopping a stream\<close>

lemma stop_after_normal_end:
  assumes "snd (thread_run fuel e sim cfg reg) = Some (Finished, reg')"
  shows "fst (stop_stream reg' (s_stream_id cfg)) = False"
  using assms
  by (auto simp: thread_run_def stop_after_cleanup
      split: prod.splits option.splits outcome.splits)

lemma registry_after_exception:
  assumes "snd (runner fuel e sim cfg) = Some (Died err)"
  shows "snd (thread_run fuel e sim cfg reg) = Some (Died err, reg)"
  using assms
  by (auto simp: thread_run_def split: prod.splits option.splits outcome.splits)

lemma out_of_range_dies:
  "runner 1 scenario_env scenario_sim out_of_range_stream = ([], Some (Died IndexError))"
  by (simp add: runner_def next_sample_def iloc_def out_of_range_stream_def scenario_sim_def)

text \<open>
  C8 at a failing input. A stream started with \<^verbatim>\<open>sample_selector=[5]\<close> on a catalog of
  one row: the thread ends at once, on the \<^verbatim>\<open>IndexError\<close> of \<^verbatim>\<open>df.iloc[5]\<close>, sends no
  \<^verbatim>\<open>stream_ended\<close> and does not delete its entry; \<^verbatim>\<open>stop_stream\<close> then returns \<^verbatim>\<open>True\<close>
  for a stream that has stopped.
\<close>

theorem stop_returns_true_for_dead_stream:
  "fst (stream_tests Map.empty (Some ''run-1'') ''u1'') = ''run-1''
   \<and> thread_run 1 scenario_env scenario_sim out_of_range_stream
        (snd (stream_tests Map.empty (Some ''run-1'') ''u1''))
      = ([], Some (Died IndexError, snd (stream_tests Map.empty (Some ''run-1'') ''u1'')))
   \<and> fst (stop_stream (snd (stream_tests Map.empty (Some ''run-1'') ''u1'')) ''run-1'') = True"
proof (intro conjI)
  show "fst (stream_tests Map.empty (Some ''run-1'') ''u1'') = ''run-1''"
    by (simp add: stream_tests_def truthy_def py_str_def Let_def)
  show "thread_run 1 scenario_env scenario_sim out_of_range_stream
        (snd (stream_tests Map.empty (Some ''run-1'') ''u1''))
      = ([], Some (Died IndexError, snd (stream_tests Map.empty (Some ''run-1'') ''u1'')))"
    using out_of_range_dies by (simp add: thread_run_def)
  show "fst (stop_stream (snd (stream_tests Map.empty (Some ''run-1'') ''u1'')) ''run-1'') = True"
    by (simp add: stop_stream_def stream_tests_def truthy_def py_str_def Let_def)
qed

lemma endless_stream_runs_on:
  "snd (runner fuel scenario_env scenario_sim endless_stream) = None"
proof -
  have "tick_yields scenario_env scenario_sim endless_stream k" for k
  proof -
    have "next_sample scenario_sim Default (\<lambda>k. 0) k = Item scenario_row"
      by (simp add: next_sample_def scenario_sim_def)
    then show ?thesis
      using scenario_runs by (auto simp: tick_yields_def endless_stream_def)
  qed
  then have "snd (runner_loop fuel scenario_env scenario_sim endless_stream 0 0) = None"
    by (intro never_ends) (simp_all add: endless_stream_def)
  then show ?thesis by (simp add: runner_outcome)
qed

lemma one_row_finishes:
  "snd (runner 2 scenario_env scenario_sim one_row_stream) = Some Finished"
proof -
  have two: "2 = Suc (Suc 0)" by simp
  from runner_loop_more [OF one_row_first, of "Suc 0"] obtain ev where
    eq: "runner_loop (Suc (Suc 0)) scenario_env scenario_sim one_row_stream 0 0
          = (SimResult ev # fst (runner_loop (Suc 0) scenario_env scenario_sim one_row_stream
                (Suc 0) (Suc (after_sleep one_row_stream 0))),
             snd (runner_loop (Suc 0) scenario_env scenario_sim one_row_stream
                (Suc 0) (Suc (after_sleep one_row_stream 0))))"
    by blast
  have last: "runner_loop (Suc 0) scenario_env scenario_sim one_row_stream (Suc 0) r
      = ([], Some Finished)" for r
    by (simp add: next_sample_def one_row_stream_def)
  have "runner_loop 2 scenario_env scenario_sim one_row_stream 0 0
      = ([SimResult ev], Some Finished)"
    unfolding two eq last by simp
  then show ?thesis
    by (simp add: runner_def)
qed

text \<open>
  The same slip from the other side. Two streams started under the one id \<^verbatim>\<open>run-1\<close>
  share one entry. When the first, over the list \<^verbatim>\<open>[0]\<close>, has ended, it deletes the
  entry, and \<^verbatim>\<open>stop_stream\<close> returns \<^verbatim>\<open>False\<close> for the id while the second, an endless
  stream, still runs and can no longer be stopped.
\<close>

lemma stop_returns_false_for_running_stream:
  "s_stream_id one_row_stream = ''run-1'' \<and> s_stream_id endless_stream = ''run-1''
   \<and> (\<forall>fuel. snd (runner fuel scenario_env scenario_sim endless_stream) = None)
   \<and> (\<exists>ms reg'. thread_run 2 scenario_env scenario_sim one_row_stream
          (snd (stream_tests (snd (stream_tests Map.empty (Some ''run-1'') ''u1''))
                 (Some ''run-1'') ''u2''))
          = (ms, Some (Finished, reg'))
        \<and> fst (stop_stream reg' ''run-1'') = False)"
proof -
  obtain ms where r: "runner 2 scenario_env scenario_sim one_row_stream = (ms, Some Finished)"
    using one_row_finishes
    by (cases "runner 2 scenario_env scenario_sim one_row_stream") auto
  let ?reg = "snd (stream_tests (snd (stream_tests Map.empty (Some ''run-1'') ''u1''))
                 (Some ''run-1'') ''u2'')"
  have t: "thread_run 2 scenario_env scenario_sim one_row_stream ?reg
      = (ms, Some (Finished, runner_cleanup ?reg (s_stream_id one_row_stream)))"
    using r by (simp add: thread_run_def)
  have "fst (stop_stream (runner_cleanup ?reg (s_stream_id one_row_stream)) ''run-1'') = False"
    using stop_after_cleanup [of ?reg "''run-1''"] by (simp add: one_row_stream_def)
  with t show ?thesis
    using endless_stream_runs_on by (simp add: one_row_stream_def endless_stream_def)
qed

end
